theory Spec2Isabelle
  imports Main "HOL-Library.Sublist" "HOL-Library.Char_ord" "HOL-Library.List_Lexorder"
begin

section \<open>The Airtable gateway of \<open>src/server/server.ts\<close>\<close>

text \<open>
  The server keeps its state in module-level maps (\<open>authSessions\<close>,
  \<open>pendingAuthStates\<close>, \<open>sessions\<close>, \<open>sessionAuthHeaders\<close>,
  \<open>transportToSessionId\<close>). Here they are the fields of one record that every
  handler takes and returns. What a handler reads from outside the process is an
  argument: the clock (\<open>Date.now()\<close>, one argument per reading), the random nonce
  (\<open>crypto.randomBytes(16).toString("hex")\<close>), the environment variables and the
  answers of \<open>fetch\<close>. Every \<open>fetch\<close> a handler issues is appended to the
  field \<open>fetchLog\<close>, which the program does not have: it is there to count calls.

  Strings are byte strings (UTF-8). Times are integers (milliseconds), as
  \<open>Date.now()\<close> returns them. A thrown exception is the left summand of the result.
\<close>

subsection \<open>Exceptions\<close>

datatype error =
    Error string          \<comment> \<open>\<open>throw new Error(msg)\<close>\<close>
  | TypeError string      \<comment> \<open>raised by the runtime (a property read on \<open>null\<close>, a failed \<open>fetch\<close>)\<close>
  | SyntaxError string    \<comment> \<open>raised by \<open>response.json()\<close> on a body that is not JSON\<close>
  | ZodError              \<comment> \<open>raised by a zod parser's \<open>parse\<close>\<close>
  | RangeError string     \<comment> \<open>raised by the runtime when the call stack is exhausted\<close>

fun message :: "error \<Rightarrow> string" where
  "message (Error m) = m"
| "message (TypeError m) = m"
| "message (SyntaxError m) = m"
| "message ZodError = ''ZodError''"
| "message (RangeError m) = m"

subsection \<open>Decimal numerals, as template literals print integers\<close>

fun digitChar :: "nat \<Rightarrow> char" where
  "digitChar n = char_of (48 + n)"

fun showNatFuel :: "nat \<Rightarrow> nat \<Rightarrow> string" where
  "showNatFuel 0 n = [digitChar (n mod 10)]"
| "showNatFuel (Suc f) n =
     (if n < 10 then [digitChar n] else showNatFuel f (n div 10) @ [digitChar (n mod 10)])"

definition showNat :: "nat \<Rightarrow> string" where
  "showNat n = showNatFuel n n"

definition showInt :: "int \<Rightarrow> string" where
  "showInt i = (if i < 0 then CHR ''-'' # showNat (nat (- i)) else showNat (nat i))"

subsection \<open>JSON values\<close>

text \<open>
  A JSON number is an integer here: the numbers the handlers compute with are counts and
  limits. An object is the list of its members in order; \<open>undefined\<close> is \<open>None\<close> of
  \<open>json option\<close>.
\<close>

datatype json =
    JNull
  | JBool bool
  | JNum int
  | JStr string
  | JArr "json list"
  | JObj "(string \<times> json) list"

subsection \<open>What \<open>fetch\<close> sends and receives\<close>

datatype req_body = NoBody | FormBody "(string \<times> string) list" | JsonBody json

record fetch_request =
  reqUrl :: string
  reqMethod :: string
  reqAuthorization :: "string option"
  reqContentType :: string
  reqBody :: req_body

text \<open>
  A response has its status, its body as \<open>response.text()\<close> gives it, and the result
  of \<open>response.json()\<close>: the parsed body, or the message of the \<open>SyntaxError\<close>.
  \<open>response.ok\<close> is the status being in 200..299. A \<open>fetch\<close> that rejects (no
  connection) is \<open>None\<close>.
\<close>

record 'a response =
  respStatus :: nat
  respText :: string
  respJson :: "string + 'a"

definition ok :: "'a response \<Rightarrow> bool" where
  "ok r = (200 \<le> respStatus r \<and> respStatus r \<le> 299)"

text \<open>The body of a successful token response, with the fields the source declares.\<close>

record token_data =
  access_token :: string
  refresh_token :: string
  expires_in :: int

text \<open>
  What is outside the program: the two services that answer \<open>fetch\<close>, and the one
  conversion of the JavaScript engine that is not computed here, whether
  \<open>StringToNumber\<close> of a string is greater than zero (a comparison \<open>v > 0\<close> on a
  string, array or object converts it to a string and then to a number).
\<close>

record environment =
  tokenEndpoint :: "fetch_request \<Rightarrow> token_data response option"
  airtableApi :: "fetch_request \<Rightarrow> json response option"
  stringToNumberPositive :: "string \<Rightarrow> bool"

record config =
  AIRTABLE_CLIENT_ID :: string
  AIRTABLE_CLIENT_SECRET :: string
  AIRTABLE_REDIRECT_URI :: string

subsection \<open>The module-level maps\<close>

record auth_session =
  accessToken :: string
  refreshToken :: string
  expiresAt :: int

record pending_auth =
  pendingSessionId :: string
  createdAt :: int

record session_record =
  authHeader :: "string option"

record server_state =
  authSessions :: "string \<rightharpoonup> auth_session"
  pendingAuthStates :: "string \<rightharpoonup> pending_auth"
  sessions :: "string \<rightharpoonup> session_record"
  sessionAuthHeaders :: "string \<rightharpoonup> string"
  transportToSessionId :: "string \<rightharpoonup> string"
  fetchLog :: "fetch_request list"

subsection \<open>OAuth helpers\<close>

definition tokenUrl :: string where
  "tokenUrl = ''https://airtable.com/oauth2/v1/token''"

definition exchangeRequest :: "config \<Rightarrow> string \<Rightarrow> fetch_request" where
  "exchangeRequest cfg code =
     \<lparr> reqUrl = tokenUrl, reqMethod = ''POST'', reqAuthorization = None,
       reqContentType = ''application/x-www-form-urlencoded'',
       reqBody = FormBody
         [(''grant_type'', ''authorization_code''),
          (''code'', code),
          (''redirect_uri'', AIRTABLE_REDIRECT_URI cfg),
          (''client_id'', AIRTABLE_CLIENT_ID cfg),
          (''client_secret'', AIRTABLE_CLIENT_SECRET cfg)] \<rparr>"

definition refreshRequest :: "config \<Rightarrow> string \<Rightarrow> fetch_request" where
  "refreshRequest cfg rt =
     \<lparr> reqUrl = tokenUrl, reqMethod = ''POST'', reqAuthorization = None,
       reqContentType = ''application/x-www-form-urlencoded'',
       reqBody = FormBody
         [(''grant_type'', ''refresh_token''),
          (''refresh_token'', rt),
          (''client_id'', AIRTABLE_CLIENT_ID cfg),
          (''client_secret'', AIRTABLE_CLIENT_SECRET cfg)] \<rparr>"

text \<open>The part of both helpers after \<open>await fetch(...)\<close>.\<close>

definition tokenResult :: "string \<Rightarrow> token_data response option \<Rightarrow> error + token_data" where
  "tokenResult what r =
     (case r of
        None \<Rightarrow> Inl (TypeError ''fetch failed'')
      | Some resp \<Rightarrow>
          if \<not> ok resp
          then Inl (Error (what @ showNat (respStatus resp) @ '' '' @ respText resp))
          else (case respJson resp of Inl m \<Rightarrow> Inl (SyntaxError m) | Inr d \<Rightarrow> Inr d))"

definition exchangeCodeForToken ::
  "config \<Rightarrow> environment \<Rightarrow> string \<Rightarrow> server_state \<Rightarrow> (error + token_data) \<times> server_state" where
  "exchangeCodeForToken cfg env code s =
     (let rq = exchangeRequest cfg code in
      (tokenResult ''Failed to exchange code for token: '' (tokenEndpoint env rq),
       s\<lparr>fetchLog := fetchLog s @ [rq]\<rparr>))"

definition refreshAccessToken ::
  "config \<Rightarrow> environment \<Rightarrow> string \<Rightarrow> server_state \<Rightarrow> (error + token_data) \<times> server_state" where
  "refreshAccessToken cfg env rt s =
     (let rq = refreshRequest cfg rt in
      (tokenResult ''Failed to refresh token: '' (tokenEndpoint env rq),
       s\<lparr>fetchLog := fetchLog s @ [rq]\<rparr>))"

text \<open>
  \<open>getValidAccessToken\<close>: \<open>now\<close> is the clock at the expiry test, \<open>now'\<close> the clock
  after the refresh has answered.
\<close>

definition getValidAccessToken ::
  "config \<Rightarrow> environment \<Rightarrow> int \<Rightarrow> int \<Rightarrow> string \<Rightarrow> server_state \<Rightarrow> (error + string) \<times> server_state" where
  "getValidAccessToken cfg env now now' sessionId s =
     (case authSessions s sessionId of
        None \<Rightarrow> (Inl (Error ''Not authenticated. Please authenticate with Airtable first.''), s)
      | Some session \<Rightarrow>
          if now \<ge> expiresAt session - 5 * 60 * 1000
          then (case refreshAccessToken cfg env (refreshToken session) s of
                  (Inl e, s1) \<Rightarrow> (Inl e, s1)
                | (Inr tokenData, s1) \<Rightarrow>
                    (let session' = session\<lparr> accessToken := access_token tokenData,
                                             expiresAt := now' + expires_in tokenData * 1000 \<rparr>
                     in (Inr (accessToken session'),
                         s1\<lparr>authSessions := (authSessions s1)(sessionId \<mapsto> session')\<rparr>)))
          else (Inr (accessToken session), s))"

subsection \<open>The authorization callback\<close>

text \<open>
  The HTML pages of the callback are named here by what distinguishes them: the page
  and the text interpolated into it.
\<close>

datatype page =
    PlainText string
  | AuthenticationFailedPage string
  | ConnectedPage
  | AuthenticationErrorPage string

record http_reply =
  replyStatus :: nat
  replyPage :: page

text \<open>A string from \<open>searchParams.get\<close> or a header: \<open>null\<close> and \<open>""\<close> are falsy.\<close>

definition truthyStr :: "string option \<Rightarrow> bool" where
  "truthyStr x = (case x of None \<Rightarrow> False | Some v \<Rightarrow> v \<noteq> [])"

text \<open>The loop that deletes every pending state older than ten minutes.\<close>

definition sweepPending :: "int \<Rightarrow> (string \<rightharpoonup> pending_auth) \<Rightarrow> (string \<rightharpoonup> pending_auth)" where
  "sweepPending now m =
     (\<lambda>key. case m key of
               None \<Rightarrow> None
             | Some v \<Rightarrow> if now - createdAt v > 10 * 60 * 1000 then None else Some v)"

definition handleAuthCallback ::
  "config \<Rightarrow> environment \<Rightarrow> int \<Rightarrow> int \<Rightarrow> string option \<Rightarrow> string option \<Rightarrow> string option
     \<Rightarrow> server_state \<Rightarrow> http_reply \<times> server_state" where
  "handleAuthCallback cfg env now now' codeParam stateParam errorParam s =
     (case (if truthyStr errorParam then errorParam else None) of
        Some err \<Rightarrow> (\<lparr>replyStatus = 400, replyPage = AuthenticationFailedPage err\<rparr>, s)
      | None \<Rightarrow>
         (case (if truthyStr codeParam \<and> truthyStr stateParam then (codeParam, stateParam)
                else (None, None)) of
            (Some code, Some state) \<Rightarrow>
              (case pendingAuthStates s state of
                 None \<Rightarrow>
                   (\<lparr>replyStatus = 400,
                     replyPage = PlainText ''Invalid or expired state parameter''\<rparr>, s)
               | Some pendingAuth \<Rightarrow>
                   (let s1 = s\<lparr>pendingAuthStates := sweepPending now (pendingAuthStates s)\<rparr> in
                    case exchangeCodeForToken cfg env code s1 of
                      (Inl e, s2) \<Rightarrow>
                        (\<lparr>replyStatus = 500, replyPage = AuthenticationErrorPage (message e)\<rparr>, s2)
                    | (Inr tokenData, s2) \<Rightarrow>
                        (\<lparr>replyStatus = 200, replyPage = ConnectedPage\<rparr>,
                         s2\<lparr> authSessions := (authSessions s2)
                               (pendingSessionId pendingAuth \<mapsto>
                                  \<lparr> accessToken = access_token tokenData,
                                    refreshToken = refresh_token tokenData,
                                    expiresAt = now' + expires_in tokenData * 1000 \<rparr>),
                             pendingAuthStates := (pendingAuthStates s2)(state := None) \<rparr>)))
          | _ \<Rightarrow>
              (\<lparr>replyStatus = 400, replyPage = PlainText ''Missing code or state parameter''\<rparr>, s)))"

subsection \<open>Transports and sessions\<close>

text \<open>
  \<open>handleSseRequest\<close>: \<open>rand\<close> is the random hex string, \<open>tid\<close> the id the SDK's
  transport gave itself, \<open>connected\<close> whether \<open>server.connect\<close> returned, and
  \<open>headersSent\<close> the response's flag when it did not. The reply is \<open>None\<close> while
  the stream stays open.
\<close>

definition handleSseRequest ::
  "string option \<Rightarrow> string option \<Rightarrow> string \<Rightarrow> string \<Rightarrow> bool \<Rightarrow> bool
     \<Rightarrow> server_state \<Rightarrow> nat option \<times> server_state" where
  "handleSseRequest sessionId authHdr rand tid connected headersSent s =
     (let actualSessionId = (case sessionId of
                               None \<Rightarrow> rand
                             | Some v \<Rightarrow> if v \<noteq> [] then v else rand);
          s1 = s\<lparr>transportToSessionId := (transportToSessionId s)(tid \<mapsto> actualSessionId)\<rparr>;
          s2 = (case authHdr of
                  None \<Rightarrow> s1
                | Some h \<Rightarrow>
                    if h \<noteq> []
                    then s1\<lparr>sessionAuthHeaders := (sessionAuthHeaders s1)(actualSessionId \<mapsto> h)\<rparr>
                    else s1);
          s3 = s2\<lparr>sessions := (sessions s2)(tid \<mapsto> \<lparr>authHeader = authHdr\<rparr>)\<rparr>
      in if connected then (None, s3)
         else (if headersSent then None else Some 500,
               s3\<lparr>sessions := (sessions s3)(tid := None)\<rparr>))"

text \<open>
  The close hook \<open>transport.onclose\<close> of the transport \<open>tid\<close>, which
  \<open>handleSseRequest\<close> sets before \<open>server.connect\<close>. Its last statement is
  \<open>await server.close()\<close>. In the SDK \<open>server.close()\<close> awaits \<open>transport.close()\<close>,
  and \<open>close\<close> of the SSE transport ends the response and calls the transport's
  \<open>onclose\<close>, which since \<open>server.connect\<close> is the SDK's wrapper around this hook: it
  calls the hook first. Each of these calls is made before anything is awaited, so the
  hook runs again on the stack of the hook that closes the server. \<open>stack\<close> is the
  number of such nested runs the call stack has room for; the run that finds no room
  throws the runtime's \<open>RangeError\<close>, which rejects the promise of every run around it.
\<close>

fun onclose :: "nat \<Rightarrow> string \<Rightarrow> server_state \<Rightarrow> (error + unit) \<times> server_state"
  and serverClose :: "nat \<Rightarrow> string \<Rightarrow> server_state \<Rightarrow> (error + unit) \<times> server_state" where
  "onclose 0 tid s = (Inl (RangeError ''Maximum call stack size exceeded''), s)"
| "onclose (Suc stack) tid s =
     (let s1 = (case transportToSessionId s tid of
                  None \<Rightarrow> s
                | Some mappedSessionId \<Rightarrow>
                    if mappedSessionId \<noteq> []
                    then s\<lparr> sessionAuthHeaders := (sessionAuthHeaders s)(mappedSessionId := None),
                            transportToSessionId := (transportToSessionId s)(tid := None) \<rparr>
                    else s);
          s2 = s1\<lparr>sessions := (sessions s1)(tid := None)\<rparr>
      in serverClose stack tid s2)"
| "serverClose stack tid s = onclose stack tid s"

text \<open>
  The close event of the response of the transport \<open>tid\<close>. The SDK's wrapper calls the
  hook and drops the promise it returns. The program handles a rejected promise nowhere
  and registers no \<open>unhandledRejection\<close> listener, so a rejection ends the Node process,
  and with it the maps, which live in its memory.
\<close>

datatype process = Running server_state | Exited error

definition transportClosed :: "nat \<Rightarrow> string \<Rightarrow> server_state \<Rightarrow> process" where
  "transportClosed stack tid s =
     (case onclose stack tid s of
        (Inl e, s1) \<Rightarrow> Exited e
      | (Inr u, s1) \<Rightarrow> Running s1)"

text \<open>
  The branch \<open>GET /mcp\<close> of the HTTP handler: the only call of \<open>handleSseRequest\<close>,
  with \<open>undefined\<close> for the session id. \<open>authorization\<close> is the request's header.
\<close>

definition sseRoute ::
  "string option \<Rightarrow> string \<Rightarrow> string \<Rightarrow> bool \<Rightarrow> bool \<Rightarrow> server_state
     \<Rightarrow> nat option \<times> server_state" where
  "sseRoute authorization rand tid connected headersSent s =
     (let authHeaderStr = (if truthyStr authorization then authorization else None)
      in handleSseRequest None authHeaderStr rand tid connected headersSent s)"

text \<open>
  \<open>handlePostMessage\<close>. What the SDK's \<open>transport.handlePostMessage\<close> does with the
  request is an argument: it answered with a status, or it threw before or after the
  headers were sent.
\<close>

datatype transport_result = Handled nat | ThrewBeforeHeaders | ThrewAfterHeaders nat

definition handlePostMessage ::
  "string option \<Rightarrow> string option \<Rightarrow> transport_result \<Rightarrow> server_state \<Rightarrow> http_reply \<times> server_state" where
  "handlePostMessage sessionIdParam authHdr sdk s =
     (case (if truthyStr sessionIdParam then sessionIdParam else None) of
        None \<Rightarrow>
          (\<lparr>replyStatus = 400, replyPage = PlainText ''Missing sessionId query parameter''\<rparr>, s)
      | Some sessionId \<Rightarrow>
         (case sessions s sessionId of
            None \<Rightarrow> (\<lparr>replyStatus = 404, replyPage = PlainText ''Unknown session''\<rparr>, s)
          | Some session \<Rightarrow>
             (let s1 = (case (if truthyStr authHdr then authHdr else None) of
                          None \<Rightarrow> s
                        | Some authHeaderStr \<Rightarrow>
                           (let s0 = s\<lparr>sessions := (sessions s)
                                       (sessionId \<mapsto> session\<lparr>authHeader := Some authHeaderStr\<rparr>)\<rparr>;
                                key = (case transportToSessionId s0 sessionId of
                                         None \<Rightarrow> sessionId
                                       | Some actualSessionId \<Rightarrow>
                                           if actualSessionId \<noteq> [] then actualSessionId
                                           else sessionId)
                            in s0\<lparr>sessionAuthHeaders :=
                                     (sessionAuthHeaders s0)(key \<mapsto> authHeaderStr)\<rparr>))
              in case sdk of
                   Handled n \<Rightarrow> (\<lparr>replyStatus = n, replyPage = PlainText []\<rparr>, s1)
                 | ThrewBeforeHeaders \<Rightarrow>
                     (\<lparr>replyStatus = 500, replyPage = PlainText ''Failed to process message''\<rparr>, s1)
                 | ThrewAfterHeaders n \<Rightarrow> (\<lparr>replyStatus = n, replyPage = PlainText []\<rparr>, s1))))"

subsection \<open>Paths (\<open>node:path\<close> on POSIX, absolute paths)\<close>

fun splitOn :: "char \<Rightarrow> string \<Rightarrow> string list" where
  "splitOn c [] = [[]]"
| "splitOn c (x # xs) =
     (if x = c then [] # splitOn c xs
      else (case splitOn c xs of [] \<Rightarrow> [[x]] | y # ys \<Rightarrow> (x # y) # ys))"

fun joinWith :: "string \<Rightarrow> string list \<Rightarrow> string" where
  "joinWith sep [] = []"
| "joinWith sep [x] = x"
| "joinWith sep (x # y # ys) = x @ sep @ joinWith sep (y # ys)"

fun normalizeSegments :: "string list \<Rightarrow> string list \<Rightarrow> string list" where
  "normalizeSegments acc [] = acc"
| "normalizeSegments acc (x # xs) =
     (if x = [] \<or> x = ''.'' then normalizeSegments acc xs
      else if x = ''..'' then normalizeSegments (butlast acc) xs
      else normalizeSegments (acc @ [x]) xs)"

definition pathResolve :: "string \<Rightarrow> string" where
  "pathResolve p = CHR ''/'' # joinWith ''/'' (normalizeSegments [] (splitOn CHR ''/'' p))"

definition pathNormalize :: "string \<Rightarrow> string" where
  "pathNormalize p =
     (let segs = normalizeSegments [] (splitOn CHR ''/'' p) in
      if segs = [] then ''/''
      else if p \<noteq> [] \<and> last p = CHR ''/'' then CHR ''/'' # joinWith ''/'' segs @ ''/''
      else CHR ''/'' # joinWith ''/'' segs)"

definition pathJoin :: "string list \<Rightarrow> string" where
  "pathJoin parts = pathNormalize (joinWith ''/'' (filter (\<lambda>p. p \<noteq> []) parts))"

definition ASSETS_DIR :: "string \<Rightarrow> string" where
  "ASSETS_DIR rootDir = pathResolve (rootDir @ ''/assets'')"



record filesystem =
  existsSync :: "string \<Rightarrow> bool"
  isFile :: "string \<Rightarrow> bool"
  readFileSync :: "string \<Rightarrow> string + string"
  readdirSync :: "string \<Rightarrow> string + string list"
















subsection \<open>Widgets and the resource handler\<close>

record widget =
  widgetId :: string
  title :: string
  templateUri :: string
  invoking :: string
  invoked :: string
  html :: string
  responseText :: string

definition widgets :: "widget list" where
  "widgets =
     [\<lparr> widgetId = ''list-records'', title = ''List Records'',
        templateUri = ''ui://widget/list-records.html'',
        invoking = ''Loading Airtable records'', invoked = ''Loaded Airtable records'',
        html = [], responseText = ''Found Airtable records'' \<rparr>,
      \<lparr> widgetId = ''create-records'', title = ''Create Records'',
        templateUri = ''ui://widget/create-records.html'',
        invoking = ''Creating Airtable records'', invoked = ''Created Airtable records'',
        html = [], responseText = ''Created Airtable records'' \<rparr>,
      \<lparr> widgetId = ''update-record'', title = ''Update Record'',
        templateUri = ''ui://widget/update-record.html'',
        invoking = ''Updating Airtable record'', invoked = ''Updated Airtable record'',
        html = [], responseText = ''Updated Airtable record'' \<rparr>,
      \<lparr> widgetId = ''get-record'', title = ''Get Record'',
        templateUri = ''ui://widget/get-record.html'',
        invoking = ''Loading Airtable record'', invoked = ''Loaded Airtable record'',
        html = [], responseText = ''Found Airtable record'' \<rparr>,
      \<lparr> widgetId = ''create-comment'', title = ''Create Comment'',
        templateUri = ''ui://widget/create-comment.html'',
        invoking = ''Creating comment'', invoked = ''Created comment'',
        html = [], responseText = ''Created comment'' \<rparr>]"

text \<open>
  \<open>widgetsById.get\<close> and \<open>widgetsByUri.get\<close> on a table of widgets (the ids and
  the uris of \<open>widgets\<close> are distinct, so the first match is the entry of the map).
\<close>

definition widgetsById :: "widget list \<Rightarrow> string \<Rightarrow> widget option" where
  "widgetsById ws i = find (\<lambda>w. widgetId w = i) ws"

definition widgetsByUri :: "widget list \<Rightarrow> string \<Rightarrow> widget option" where
  "widgetsByUri ws u = find (\<lambda>w. templateUri w = u) ws"

definition widgetMeta :: "widget \<Rightarrow> json" where
  "widgetMeta w =
     JObj [(''openai/outputTemplate'', JStr (templateUri w)),
           (''openai/toolInvocation/invoking'', JStr (invoking w)),
           (''openai/toolInvocation/invoked'', JStr (invoked w)),
           (''openai/widgetAccessible'', JBool True),
           (''openai/resultCanProduceWidget'', JBool True)]"

text \<open>
  \<open>readWidgetHtml\<close>. The read of the direct path is outside the \<open>try\<close>, so its
  failure is thrown; the reads inside the \<open>try\<close> leave \<open>htmlContents\<close> at
  \<open>null\<close> when they fail. \<open>sort\<close> orders the names by their characters.
\<close>

definition versionedOrNested :: "string \<Rightarrow> filesystem \<Rightarrow> string \<Rightarrow> string option" where
  "versionedOrNested rootDir fs componentName =
     (case readdirSync fs (ASSETS_DIR rootDir) of
        Inl e \<Rightarrow> None
      | Inr files \<Rightarrow>
         (let candidates =
                sort (filter (\<lambda>file. prefix (componentName @ ''-'') file \<and> suffix ''.html'' file)
                        files);
              fallback = (if candidates = [] then None else Some (last candidates))
          in if truthyStr fallback
             then (case readFileSync fs (pathJoin [ASSETS_DIR rootDir, last candidates]) of
                     Inl e \<Rightarrow> None
                   | Inr c \<Rightarrow> Some c)
             else (let nestedPath =
                         pathJoin [ASSETS_DIR rootDir, ''src'', ''components'',
                                   componentName @ ''.html'']
                   in if existsSync fs nestedPath
                      then (case readFileSync fs nestedPath of Inl e \<Rightarrow> None | Inr c \<Rightarrow> Some c)
                      else None)))"

definition readWidgetHtml :: "string \<Rightarrow> filesystem \<Rightarrow> string \<Rightarrow> error + string" where
  "readWidgetHtml rootDir fs componentName =
     (if \<not> existsSync fs (ASSETS_DIR rootDir)
      then Inr (''<html><body><div id=\"root\"></div><script>console.error(''
                @ [CHR 0x27] @ ''Widget assets not built. Run npm run build:widgets'' @ [CHR 0x27]
                @ '');</script></body></html>'')
      else
        (let directPath = pathJoin [ASSETS_DIR rootDir, componentName @ ''.html''] in
         case (if existsSync fs directPath
               then (case readFileSync fs directPath of
                       Inl e \<Rightarrow> Inl (Error e)
                     | Inr c \<Rightarrow> Inr (Some c))
               else Inr (versionedOrNested rootDir fs componentName)) of
           Inl e \<Rightarrow> Inl e
         | Inr htmlContents \<Rightarrow>
             if \<not> truthyStr htmlContents
             then Inr (''<html><body><div id=\"root\"></div><script>console.error(''
                       @ [CHR 0x27] @ ''Widget HTML for \"'' @ componentName
                       @ ''\" not found. Run npm run build:widgets'' @ [CHR 0x27]
                       @ '');</script></body></html>'')
             else (case htmlContents of Some c \<Rightarrow> Inr c | None \<Rightarrow> Inr [])))"

record resource_contents =
  contentsUri :: string
  contentsMimeType :: string
  contentsText :: string
  contentsMeta :: json

text \<open>
  The \<open>ReadResourceRequest\<close> handler. The table of widgets is taken and returned,
  to show what the handler stores in it.
\<close>

definition readResource ::
  "string \<Rightarrow> filesystem \<Rightarrow> string \<Rightarrow> widget list \<Rightarrow> (error + resource_contents list) \<times> widget list" where
  "readResource rootDir fs uri ws =
     (case widgetsByUri ws uri of
        None \<Rightarrow> (Inl (Error (''Unknown resource: '' @ uri)), ws)
      | Some w \<Rightarrow>
         (case (if html w \<noteq> [] then Inr (html w) else readWidgetHtml rootDir fs (widgetId w)) of
            Inl e \<Rightarrow> (Inl e, ws)
          | Inr h \<Rightarrow>
             (Inr [\<lparr> contentsUri = templateUri w, contentsMimeType = ''text/html+skybridge'',
                     contentsText = h, contentsMeta = widgetMeta w \<rparr>],
              ws)))"

subsection \<open>JavaScript's reading of JSON values\<close>

text \<open>
  The payload of a backend answer has the type \<open>any\<close> in the source, and the handlers
  read it with property reads, \<open>?.\<close>, \<open>||\<close> and template literals. These are the
  rules of the language for values that came out of \<open>JSON.parse\<close>. The members of an
  object have distinct names.
\<close>

fun truthy :: "json option \<Rightarrow> bool" where
  "truthy None = False"
| "truthy (Some JNull) = False"
| "truthy (Some (JBool b)) = b"
| "truthy (Some (JNum n)) = (n \<noteq> 0)"
| "truthy (Some (JStr s)) = (s \<noteq> [])"
| "truthy (Some (JArr xs)) = True"
| "truthy (Some (JObj kv)) = True"

text \<open>\<open>a || d\<close> and \<open>a || undefined\<close>.\<close>

definition orElse :: "json option \<Rightarrow> json \<Rightarrow> json" where
  "orElse a d = (case a of None \<Rightarrow> d | Some v \<Rightarrow> if truthy a then v else d)"

definition isDigit :: "char \<Rightarrow> bool" where
  "isDigit c = (CHR ''0'' \<le> c \<and> c \<le> CHR ''9'')"

text \<open>An array index as a property name: decimal digits with no leading zero.\<close>

definition parseIndex :: "string \<Rightarrow> nat option" where
  "parseIndex key =
     (if key \<noteq> [] \<and> list_all isDigit key \<and> (length key = 1 \<or> hd key \<noteq> CHR ''0'')
      then Some (foldl (\<lambda>a c. 10 * a + (of_char c - 48)) 0 key)
      else None)"

definition jsGet :: "json \<Rightarrow> string \<Rightarrow> error + json option" where
  "jsGet v key =
     (case v of
        JNull \<Rightarrow>
          Inl (TypeError (''Cannot read properties of null (reading '' @ [CHR 0x27] @ key
                          @ [CHR 0x27] @ '')''))
      | JObj kv \<Rightarrow> Inr (map_of kv key)
      | JArr xs \<Rightarrow>
          Inr (if key = ''length'' then Some (JNum (int (length xs)))
               else (case parseIndex key of
                       None \<Rightarrow> None
                     | Some i \<Rightarrow> if i < length xs then Some (xs ! i) else None))
      | JStr s \<Rightarrow>
          Inr (if key = ''length'' then Some (JNum (int (length s)))
               else (case parseIndex key of
                       None \<Rightarrow> None
                     | Some i \<Rightarrow> if i < length s then Some (JStr [s ! i]) else None))
      | JBool b \<Rightarrow> Inr None
      | JNum n \<Rightarrow> Inr None)"

text \<open>A property read on a value that may be \<open>undefined\<close>.\<close>

definition jsGetOpt :: "json option \<Rightarrow> string \<Rightarrow> error + json option" where
  "jsGetOpt v key =
     (case v of
        None \<Rightarrow>
          Inl (TypeError (''Cannot read properties of undefined (reading '' @ [CHR 0x27] @ key
                          @ [CHR 0x27] @ '')''))
      | Some x \<Rightarrow> jsGet x key)"

text \<open>\<open>v?.length\<close>.\<close>

definition optLength :: "json option \<Rightarrow> json option" where
  "optLength v =
     (case v of
        None \<Rightarrow> None
      | Some JNull \<Rightarrow> None
      | Some x \<Rightarrow> (case jsGet x ''length'' of Inl e \<Rightarrow> None | Inr r \<Rightarrow> r))"

text \<open>The string a template literal makes of a value.\<close>

fun jsToString :: "json \<Rightarrow> string" where
  "jsToString JNull = ''null''"
| "jsToString (JBool b) = (if b then ''true'' else ''false'')"
| "jsToString (JNum n) = showInt n"
| "jsToString (JStr s) = s"
| "jsToString (JArr xs) =
     joinWith '','' (map (\<lambda>x. if x = JNull then [] else jsToString x) xs)"
| "jsToString (JObj kv) = ''[object Object]''"

definition templateString :: "json option \<Rightarrow> string" where
  "templateString v = (case v of None \<Rightarrow> ''undefined'' | Some x \<Rightarrow> jsToString x)"

definition typeof :: "json \<Rightarrow> string" where
  "typeof v =
     (case v of
        JNull \<Rightarrow> ''object'' | JBool b \<Rightarrow> ''boolean'' | JNum n \<Rightarrow> ''number''
      | JStr s \<Rightarrow> ''string'' | JArr xs \<Rightarrow> ''object'' | JObj kv \<Rightarrow> ''object'')"

text \<open>
  An object literal of the source. A member whose value is \<open>undefined\<close> is left
  out, as the serialisation of the result leaves it out.
\<close>

definition mkObj :: "(string \<times> json option) list \<Rightarrow> json" where
  "mkObj members =
     JObj (concat (map (\<lambda>(k, v). case v of None \<Rightarrow> [] | Some x \<Rightarrow> [(k, x)]) members))"

subsection \<open>\<open>URLSearchParams\<close> and \<open>JSON.stringify\<close>\<close>

definition hexDigit :: "nat \<Rightarrow> char" where
  "hexDigit n = (if n < 10 then char_of (48 + n) else char_of (55 + n))"

definition isAlnum :: "char \<Rightarrow> bool" where
  "isAlnum c = (isDigit c \<or> (CHR ''a'' \<le> c \<and> c \<le> CHR ''z'') \<or> (CHR ''A'' \<le> c \<and> c \<le> CHR ''Z''))"

text \<open>The \<open>application/x-www-form-urlencoded\<close> serializer, byte by byte.\<close>

definition urlencodeByte :: "char \<Rightarrow> string" where
  "urlencodeByte c =
     (if isAlnum c \<or> c = CHR ''*'' \<or> c = CHR ''-'' \<or> c = CHR ''.'' \<or> c = CHR ''_'' then [c]
      else if c = CHR '' '' then ''+''
      else [CHR ''%'', hexDigit (of_char c div 16), hexDigit (of_char c mod 16)])"

definition urlencode :: "string \<Rightarrow> string" where
  "urlencode s = concat (map urlencodeByte s)"

definition searchParamsToString :: "(string \<times> string) list \<Rightarrow> string" where
  "searchParamsToString params =
     joinWith ''&'' (map (\<lambda>(k, v). urlencode k @ ''='' @ urlencode v) params)"

definition lowerHexDigit :: "nat \<Rightarrow> char" where
  "lowerHexDigit n = (if n < 10 then char_of (48 + n) else char_of (87 + n))"

text \<open>\<open>JSON.stringify\<close> of a string.\<close>

definition quoteJSONChar :: "char \<Rightarrow> string" where
  "quoteJSONChar c =
     (if c = CHR 0x22 then [CHR 0x5C, CHR 0x22]
      else if c = CHR 0x5C then [CHR 0x5C, CHR 0x5C]
      else if c = CHR 0x08 then [CHR 0x5C, CHR ''b'']
      else if c = CHR 0x0C then [CHR 0x5C, CHR ''f'']
      else if c = CHR 0x0A then [CHR 0x5C, CHR ''n'']
      else if c = CHR 0x0D then [CHR 0x5C, CHR ''r'']
      else if c = CHR 0x09 then [CHR 0x5C, CHR ''t'']
      else if (of_char c :: nat) < 32
      then [CHR 0x5C, CHR ''u'', CHR ''0'', CHR ''0'',
            lowerHexDigit (of_char c div 16), lowerHexDigit (of_char c mod 16)]
      else [c])"

definition quoteJSONString :: "string \<Rightarrow> string" where
  "quoteJSONString s = [CHR 0x22] @ concat (map quoteJSONChar s) @ [CHR 0x22]"

subsection \<open>Handlers that throw and send\<close>

text \<open>
  A handler takes the state and returns what it threw or returned, with the new state.
  \<open>bindM\<close> is \<open>await\<close> followed by the rest of the handler: an exception ends it.
\<close>

type_synonym 'a action = "server_state \<Rightarrow> (error + 'a) \<times> server_state"

definition returnM :: "'a \<Rightarrow> 'a action" where
  "returnM a s = (Inr a, s)"

definition throwM :: "error \<Rightarrow> 'a action" where
  "throwM e s = (Inl e, s)"

definition bindM :: "'a action \<Rightarrow> ('a \<Rightarrow> 'b action) \<Rightarrow> 'b action" where
  "bindM m f s = (case m s of (Inl e, s1) \<Rightarrow> (Inl e, s1) | (Inr a, s1) \<Rightarrow> f a s1)"

definition liftE :: "error + 'a \<Rightarrow> 'a action" where
  "liftE x = (case x of Inl e \<Rightarrow> throwM e | Inr a \<Rightarrow> returnM a)"

definition bindE :: "error + 'a \<Rightarrow> ('a \<Rightarrow> error + 'b) \<Rightarrow> error + 'b" where
  "bindE x f = (case x of Inl e \<Rightarrow> Inl e | Inr a \<Rightarrow> f a)"

fun traverseE :: "('a \<Rightarrow> error + 'b) \<Rightarrow> 'a list \<Rightarrow> error + 'b list" where
  "traverseE f [] = Inr []"
| "traverseE f (x # xs) = bindE (f x) (\<lambda>y. bindE (traverseE f xs) (\<lambda>ys. Inr (y # ys)))"

subsection \<open>\<open>generateAuthUrl\<close> and \<open>airtableApiRequest\<close>\<close>

definition scopes :: "string list" where
  "scopes =
     [''data.records:read'', ''data.records:write'', ''data.recordComments:read'',
      ''data.recordComments:write'', ''schema.bases:read'', ''webhook:manage'']"

definition generateAuthUrl :: "config \<Rightarrow> string \<Rightarrow> string" where
  "generateAuthUrl cfg state =
     ''https://airtable.com/oauth2/v1/authorize?''
     @ searchParamsToString
         [(''client_id'', AIRTABLE_CLIENT_ID cfg),
          (''redirect_uri'', AIRTABLE_REDIRECT_URI cfg),
          (''response_type'', ''code''),
          (''state'', state),
          (''scope'', joinWith '' '' scopes)]"

definition AIRTABLE_API_BASE :: string where
  "AIRTABLE_API_BASE = ''https://api.airtable.com/v0''"

definition apiRequest :: "string \<Rightarrow> string \<Rightarrow> string \<Rightarrow> json option \<Rightarrow> fetch_request" where
  "apiRequest accessTok endpoint meth body =
     \<lparr> reqUrl = AIRTABLE_API_BASE @ endpoint, reqMethod = meth,
       reqAuthorization = Some (''Bearer '' @ accessTok),
       reqContentType = ''application/json'',
       reqBody = (case body of None \<Rightarrow> NoBody
                  | Some b \<Rightarrow> if truthy body then JsonBody b else NoBody) \<rparr>"

text \<open>The part of \<open>airtableApiRequest\<close> after \<open>await fetch(...)\<close>.\<close>

definition apiResult :: "json response option \<Rightarrow> error + json" where
  "apiResult r =
     (case r of
        None \<Rightarrow> Inl (TypeError ''fetch failed'')
      | Some resp \<Rightarrow>
          if \<not> ok resp
          then Inl (Error (''Airtable API error: '' @ showNat (respStatus resp) @ '' ''
                           @ respText resp))
          else if respStatus resp = 204 then Inr JNull
          else (case respJson resp of Inl m \<Rightarrow> Inl (SyntaxError m) | Inr j \<Rightarrow> Inr j))"

definition airtableApiRequest ::
  "config \<Rightarrow> environment \<Rightarrow> int \<Rightarrow> int \<Rightarrow> string \<Rightarrow> string \<Rightarrow> string \<Rightarrow> json option
     \<Rightarrow> string option \<Rightarrow> json action" where
  "airtableApiRequest cfg env now now' sessionId endpoint meth body accessTokenOverride =
     bindM (case accessTokenOverride of
              None \<Rightarrow> getValidAccessToken cfg env now now' sessionId
            | Some t \<Rightarrow> if t \<noteq> [] then returnM t
                        else getValidAccessToken cfg env now now' sessionId)
       (\<lambda>accessTok s.
          (let rq = apiRequest accessTok endpoint meth body
           in (apiResult (airtableApi env rq), s\<lparr>fetchLog := fetchLog s @ [rq]\<rparr>)))"

subsection \<open>The zod parsers\<close>

text \<open>
  A parser reads the members it declares and throws when one of them has not the
  declared type; members it does not declare are dropped. The argument is
  \<open>request.params.arguments ?? {}\<close>.
\<close>

type_synonym members = "(string \<times> json) list"

definition argumentsOrEmpty :: "members option \<Rightarrow> members" where
  "argumentsOrEmpty a = (case a of None \<Rightarrow> [] | Some kv \<Rightarrow> kv)"

definition zString :: "json \<Rightarrow> error + string" where
  "zString v = (case v of JStr s \<Rightarrow> Inr s | _ \<Rightarrow> Inl ZodError)"

definition zNumberMax :: "int \<Rightarrow> json \<Rightarrow> error + int" where
  "zNumberMax m v = (case v of JNum n \<Rightarrow> if n \<le> m then Inr n else Inl ZodError | _ \<Rightarrow> Inl ZodError)"

definition zBoolean :: "json \<Rightarrow> error + bool" where
  "zBoolean v = (case v of JBool b \<Rightarrow> Inr b | _ \<Rightarrow> Inl ZodError)"

definition zEnum :: "string list \<Rightarrow> json \<Rightarrow> error + string" where
  "zEnum vs v = (case v of JStr s \<Rightarrow> if s \<in> set vs then Inr s else Inl ZodError | _ \<Rightarrow> Inl ZodError)"

definition zRecordUnknown :: "json \<Rightarrow> error + members" where
  "zRecordUnknown v = (case v of JObj kv \<Rightarrow> Inr kv | _ \<Rightarrow> Inl ZodError)"

definition zArray :: "(json \<Rightarrow> error + 'a) \<Rightarrow> json \<Rightarrow> error + 'a list" where
  "zArray p v = (case v of JArr xs \<Rightarrow> traverseE p xs | _ \<Rightarrow> Inl ZodError)"

definition zArrayMax :: "nat \<Rightarrow> (json \<Rightarrow> error + 'a) \<Rightarrow> json \<Rightarrow> error + 'a list" where
  "zArrayMax n p v =
     (case v of
        JArr xs \<Rightarrow> bindE (traverseE p xs) (\<lambda>ys. if length xs \<le> n then Inr ys else Inl ZodError)
      | _ \<Rightarrow> Inl ZodError)"

definition zObject :: "(members \<Rightarrow> error + 'a) \<Rightarrow> json \<Rightarrow> error + 'a" where
  "zObject p v = (case v of JObj kv \<Rightarrow> p kv | _ \<Rightarrow> Inl ZodError)"

definition required :: "(json \<Rightarrow> error + 'a) \<Rightarrow> members \<Rightarrow> string \<Rightarrow> error + 'a" where
  "required p kv key = (case map_of kv key of None \<Rightarrow> Inl ZodError | Some v \<Rightarrow> p v)"

definition optional :: "(json \<Rightarrow> error + 'a) \<Rightarrow> members \<Rightarrow> string \<Rightarrow> error + 'a option" where
  "optional p kv key =
     (case map_of kv key of None \<Rightarrow> Inr None | Some v \<Rightarrow> bindE (p v) (\<lambda>a. Inr (Some a)))"

definition getBaseSchemaParser :: "members \<Rightarrow> error + string" where
  "getBaseSchemaParser a = required zString a ''baseId''"

definition listTablesParser :: "members \<Rightarrow> error + string" where
  "listTablesParser a = required zString a ''baseId''"

definition listFieldsParser :: "members \<Rightarrow> error + string \<times> string" where
  "listFieldsParser a =
     bindE (required zString a ''baseId'') (\<lambda>baseId.
     bindE (required zString a ''tableId'') (\<lambda>tableId. Inr (baseId, tableId)))"

definition listViewsParser :: "members \<Rightarrow> error + string \<times> string" where
  "listViewsParser a =
     bindE (required zString a ''baseId'') (\<lambda>baseId.
     bindE (required zString a ''tableId'') (\<lambda>tableId. Inr (baseId, tableId)))"

record sort_spec =
  sortField :: string
  sortDirection :: "string option"

definition sortSpecParser :: "json \<Rightarrow> error + sort_spec" where
  "sortSpecParser =
     zObject (\<lambda>m.
       bindE (required zString m ''field'') (\<lambda>f.
       bindE (optional (zEnum [''asc'', ''desc'']) m ''direction'') (\<lambda>d.
       Inr \<lparr>sortField = f, sortDirection = d\<rparr>)))"

record list_records_args =
  lrBaseId :: string
  lrTableId :: string
  lrView :: "string option"
  lrFilterByFormula :: "string option"
  lrMaxRecords :: "int option"
  lrPageSize :: "int option"
  lrOffset :: "string option"
  lrSort :: "sort_spec list option"
  lrFields :: "string list option"

definition listRecordsParser :: "members \<Rightarrow> error + list_records_args" where
  "listRecordsParser a =
     bindE (required zString a ''baseId'') (\<lambda>baseId.
     bindE (required zString a ''tableId'') (\<lambda>tableId.
     bindE (optional zString a ''view'') (\<lambda>view.
     bindE (optional zString a ''filterByFormula'') (\<lambda>formula.
     bindE (optional (zNumberMax 100) a ''maxRecords'') (\<lambda>maxRecords.
     bindE (optional (zNumberMax 100) a ''pageSize'') (\<lambda>pageSize.
     bindE (optional zString a ''offset'') (\<lambda>offset.
     bindE (optional (zArray sortSpecParser) a ''sort'') (\<lambda>sort.
     bindE (optional (zArray zString) a ''fields'') (\<lambda>fields.
     Inr \<lparr> lrBaseId = baseId, lrTableId = tableId, lrView = view,
           lrFilterByFormula = formula, lrMaxRecords = maxRecords, lrPageSize = pageSize,
           lrOffset = offset, lrSort = sort, lrFields = fields \<rparr>)))))))))"

text \<open>
  \<open>queryRecordsParser\<close> declares no \<open>pageSize\<close> and no \<open>offset\<close>: its result has
  neither.
\<close>

definition queryRecordsParser :: "members \<Rightarrow> error + list_records_args" where
  "queryRecordsParser a =
     bindE (required zString a ''baseId'') (\<lambda>baseId.
     bindE (required zString a ''tableId'') (\<lambda>tableId.
     bindE (optional zString a ''filterByFormula'') (\<lambda>formula.
     bindE (optional zString a ''view'') (\<lambda>view.
     bindE (optional (zNumberMax 100) a ''maxRecords'') (\<lambda>maxRecords.
     bindE (optional (zArray sortSpecParser) a ''sort'') (\<lambda>sort.
     bindE (optional (zArray zString) a ''fields'') (\<lambda>fields.
     Inr \<lparr> lrBaseId = baseId, lrTableId = tableId, lrView = view,
           lrFilterByFormula = formula, lrMaxRecords = maxRecords, lrPageSize = None,
           lrOffset = None, lrSort = sort, lrFields = fields \<rparr>)))))))"

definition getRecordParser :: "members \<Rightarrow> error + string \<times> string \<times> string" where
  "getRecordParser a =
     bindE (required zString a ''baseId'') (\<lambda>baseId.
     bindE (required zString a ''tableId'') (\<lambda>tableId.
     bindE (required zString a ''recordId'') (\<lambda>recordId. Inr (baseId, tableId, recordId))))"

definition deleteRecordParser :: "members \<Rightarrow> error + string \<times> string \<times> string" where
  "deleteRecordParser a =
     bindE (required zString a ''baseId'') (\<lambda>baseId.
     bindE (required zString a ''tableId'') (\<lambda>tableId.
     bindE (required zString a ''recordId'') (\<lambda>recordId. Inr (baseId, tableId, recordId))))"

definition getCommentsParser :: "members \<Rightarrow> error + string \<times> string \<times> string" where
  "getCommentsParser a =
     bindE (required zString a ''baseId'') (\<lambda>baseId.
     bindE (required zString a ''tableId'') (\<lambda>tableId.
     bindE (required zString a ''recordId'') (\<lambda>recordId. Inr (baseId, tableId, recordId))))"

definition createRecordParser :: "members \<Rightarrow> error + string \<times> string \<times> members" where
  "createRecordParser a =
     bindE (required zString a ''baseId'') (\<lambda>baseId.
     bindE (required zString a ''tableId'') (\<lambda>tableId.
     bindE (required zRecordUnknown a ''fields'') (\<lambda>fields. Inr (baseId, tableId, fields))))"

definition validateSchemaCompatibilityParser ::
  "members \<Rightarrow> error + string \<times> string \<times> members" where
  "validateSchemaCompatibilityParser a =
     bindE (required zString a ''baseId'') (\<lambda>baseId.
     bindE (required zString a ''tableId'') (\<lambda>tableId.
     bindE (required zRecordUnknown a ''fields'') (\<lambda>fields. Inr (baseId, tableId, fields))))"

definition updateRecordParser :: "members \<Rightarrow> error + string \<times> string \<times> string \<times> members" where
  "updateRecordParser a =
     bindE (required zString a ''baseId'') (\<lambda>baseId.
     bindE (required zString a ''tableId'') (\<lambda>tableId.
     bindE (required zString a ''recordId'') (\<lambda>recordId.
     bindE (required zRecordUnknown a ''fields'') (\<lambda>fields.
     Inr (baseId, tableId, recordId, fields)))))"

definition replaceRecordParser :: "members \<Rightarrow> error + string \<times> string \<times> string \<times> members" where
  "replaceRecordParser a =
     bindE (required zString a ''baseId'') (\<lambda>baseId.
     bindE (required zString a ''tableId'') (\<lambda>tableId.
     bindE (required zString a ''recordId'') (\<lambda>recordId.
     bindE (required zRecordUnknown a ''fields'') (\<lambda>fields.
     Inr (baseId, tableId, recordId, fields)))))"

definition batchCreateRecordsParser :: "members \<Rightarrow> error + string \<times> string \<times> members list" where
  "batchCreateRecordsParser a =
     bindE (required zString a ''baseId'') (\<lambda>baseId.
     bindE (required zString a ''tableId'') (\<lambda>tableId.
     bindE (required (zArrayMax 10 (zObject (\<lambda>m. required zRecordUnknown m ''fields''))) a
              ''records'') (\<lambda>records.
     Inr (baseId, tableId, records))))"

definition batchUpdateRecordsParser ::
  "members \<Rightarrow> error + string \<times> string \<times> (string \<times> members) list" where
  "batchUpdateRecordsParser a =
     bindE (required zString a ''baseId'') (\<lambda>baseId.
     bindE (required zString a ''tableId'') (\<lambda>tableId.
     bindE (required (zArrayMax 10 (zObject (\<lambda>m.
              bindE (required zString m ''id'') (\<lambda>i.
              bindE (required zRecordUnknown m ''fields'') (\<lambda>f. Inr (i, f)))))) a
              ''records'') (\<lambda>records.
     Inr (baseId, tableId, records))))"

definition batchDeleteRecordsParser :: "members \<Rightarrow> error + string \<times> string \<times> string list" where
  "batchDeleteRecordsParser a =
     bindE (required zString a ''baseId'') (\<lambda>baseId.
     bindE (required zString a ''tableId'') (\<lambda>tableId.
     bindE (required (zArrayMax 10 zString) a ''recordIds'') (\<lambda>recordIds.
     Inr (baseId, tableId, recordIds))))"

definition getViewRecordsParser ::
  "members \<Rightarrow> error + string \<times> string \<times> string \<times> int option" where
  "getViewRecordsParser a =
     bindE (required zString a ''baseId'') (\<lambda>baseId.
     bindE (required zString a ''tableId'') (\<lambda>tableId.
     bindE (required zString a ''viewId'') (\<lambda>viewId.
     bindE (optional (zNumberMax 100) a ''maxRecords'') (\<lambda>maxRecords.
     Inr (baseId, tableId, viewId, maxRecords)))))"

record upload_attachment_args =
  uaBaseId :: string
  uaTableId :: string
  uaRecordId :: string
  uaFieldName :: string
  uaUrl :: string
  uaFilename :: "string option"

definition uploadAttachmentParser :: "members \<Rightarrow> error + upload_attachment_args" where
  "uploadAttachmentParser a =
     bindE (required zString a ''baseId'') (\<lambda>baseId.
     bindE (required zString a ''tableId'') (\<lambda>tableId.
     bindE (required zString a ''recordId'') (\<lambda>recordId.
     bindE (required zString a ''fieldName'') (\<lambda>fieldName.
     bindE (required zString a ''url'') (\<lambda>url.
     bindE (optional zString a ''filename'') (\<lambda>filename.
     Inr \<lparr> uaBaseId = baseId, uaTableId = tableId, uaRecordId = recordId,
           uaFieldName = fieldName, uaUrl = url, uaFilename = filename \<rparr>))))))"

definition listAttachmentsParser ::
  "members \<Rightarrow> error + string \<times> string \<times> string \<times> string" where
  "listAttachmentsParser a =
     bindE (required zString a ''baseId'') (\<lambda>baseId.
     bindE (required zString a ''tableId'') (\<lambda>tableId.
     bindE (required zString a ''recordId'') (\<lambda>recordId.
     bindE (required zString a ''fieldName'') (\<lambda>fieldName.
     Inr (baseId, tableId, recordId, fieldName)))))"

definition createCommentParser ::
  "members \<Rightarrow> error + string \<times> string \<times> string \<times> string" where
  "createCommentParser a =
     bindE (required zString a ''baseId'') (\<lambda>baseId.
     bindE (required zString a ''tableId'') (\<lambda>tableId.
     bindE (required zString a ''recordId'') (\<lambda>recordId.
     bindE (required zString a ''text'') (\<lambda>txt.
     Inr (baseId, tableId, recordId, txt)))))"

record upsert_record_args =
  urBaseId :: string
  urTableId :: string
  urFields :: members
  urTypecast :: "bool option"
  urUniqueField :: string
  urUniqueValue :: string

definition upsertRecordParser :: "members \<Rightarrow> error + upsert_record_args" where
  "upsertRecordParser a =
     bindE (required zString a ''baseId'') (\<lambda>baseId.
     bindE (required zString a ''tableId'') (\<lambda>tableId.
     bindE (required zRecordUnknown a ''fields'') (\<lambda>fields.
     bindE (optional zBoolean a ''typecast'') (\<lambda>typecast.
     bindE (required zString a ''uniqueField'') (\<lambda>uniqueField.
     bindE (required zString a ''uniqueValue'') (\<lambda>uniqueValue.
     Inr \<lparr> urBaseId = baseId, urTableId = tableId, urFields = fields,
           urTypecast = typecast, urUniqueField = uniqueField,
           urUniqueValue = uniqueValue \<rparr>))))))"

subsection \<open>The tools\<close>

text \<open>
  The result of a tool: the text of its one content item, \<open>structuredContent\<close> and
  \<open>_meta\<close>. In each tool \<open>api endpoint method body\<close> stands for
  \<open>airtableApiRequest(sessionId, endpoint, method, body, accessToken)\<close>.
\<close>

record tool_result =
  resultText :: string
  structuredContent :: "json option"
  resultMeta :: "json option"

type_synonym api = "string \<Rightarrow> string \<Rightarrow> json option \<Rightarrow> json action"

definition metaOf :: "string \<Rightarrow> json option" where
  "metaOf i = map_option widgetMeta (widgetsById widgets i)"

text \<open>\<open>${v?.length || 0}\<close> and \<open>v || []\<close>.\<close>

definition countText :: "json option \<Rightarrow> string" where
  "countText v = jsToString (orElse (optLength v) (JNum 0))"

definition orEmptyArray :: "json option \<Rightarrow> json" where
  "orEmptyArray v = orElse v (JArr [])"

definition tool_list_bases :: "api \<Rightarrow> tool_result action" where
  "tool_list_bases api =
     bindM (api ''/meta/bases'' ''GET'' None) (\<lambda>data.
     bindM (liftE (jsGet data ''bases'')) (\<lambda>bases.
     returnM \<lparr> resultText = ''Found '' @ countText bases @ '' accessible bases.'',
               structuredContent = Some (mkObj [(''bases'', Some (orEmptyArray bases))]),
               resultMeta = None \<rparr>))"

definition tool_get_base_schema :: "api \<Rightarrow> members \<Rightarrow> tool_result action" where
  "tool_get_base_schema api a =
     bindM (liftE (getBaseSchemaParser a)) (\<lambda>baseId.
     bindM (api (''/meta/bases/'' @ baseId @ ''/tables'') ''GET'' None) (\<lambda>data.
     bindM (liftE (jsGet data ''tables'')) (\<lambda>tables.
     returnM \<lparr> resultText = ''Retrieved schema for base '' @ baseId @ '' with ''
                              @ countText tables @ '' tables.'',
               structuredContent = Some (mkObj [(''baseId'', Some (JStr baseId)),
                                                (''tables'', Some (orEmptyArray tables))]),
               resultMeta = None \<rparr>)))"

text \<open>\<open>data.tables?.map((t) => ({ id: t.id, name: t.name }))\<close>.\<close>

definition mapIdName :: "json option \<Rightarrow> error + json option" where
  "mapIdName tables =
     (case tables of
        None \<Rightarrow> Inr None
      | Some JNull \<Rightarrow> Inr None
      | Some (JArr ts) \<Rightarrow>
          bindE (traverseE (\<lambda>t. bindE (jsGet t ''id'') (\<lambda>i.
                                 bindE (jsGet t ''name'') (\<lambda>n.
                                 Inr (mkObj [(''id'', i), (''name'', n)])))) ts)
            (\<lambda>rs. Inr (Some (JArr rs)))
      | Some other \<Rightarrow> Inl (TypeError ''data.tables?.map is not a function''))"

definition tool_list_tables :: "api \<Rightarrow> members \<Rightarrow> tool_result action" where
  "tool_list_tables api a =
     bindM (liftE (listTablesParser a)) (\<lambda>baseId.
     bindM (api (''/meta/bases/'' @ baseId @ ''/tables'') ''GET'' None) (\<lambda>data.
     bindM (liftE (jsGet data ''tables'')) (\<lambda>tables.
     bindM (liftE (mapIdName tables)) (\<lambda>mapped.
     returnM \<lparr> resultText = ''Found '' @ countText tables @ '' tables in base '' @ baseId @ ''.'',
               structuredContent = Some (mkObj [(''baseId'', Some (JStr baseId)),
                                                (''tables'', Some (orEmptyArray mapped))]),
               resultMeta = None \<rparr>))))"

definition tool_list_fields :: "api \<Rightarrow> members \<Rightarrow> tool_result action" where
  "tool_list_fields api a =
     bindM (liftE (listFieldsParser a)) (\<lambda>(baseId, tableId).
     bindM (api (''/meta/bases/'' @ baseId @ ''/tables/'' @ tableId) ''GET'' None) (\<lambda>data.
     bindM (liftE (jsGet data ''fields'')) (\<lambda>fields.
     returnM \<lparr> resultText = ''Found '' @ countText fields @ '' fields in table '' @ tableId @ ''.'',
               structuredContent = Some (mkObj [(''baseId'', Some (JStr baseId)),
                                                (''tableId'', Some (JStr tableId)),
                                                (''fields'', Some (orEmptyArray fields))]),
               resultMeta = None \<rparr>)))"

definition tool_list_views :: "api \<Rightarrow> members \<Rightarrow> tool_result action" where
  "tool_list_views api a =
     bindM (liftE (listViewsParser a)) (\<lambda>(baseId, tableId).
     bindM (api (''/meta/bases/'' @ baseId @ ''/tables/'' @ tableId) ''GET'' None) (\<lambda>data.
     bindM (liftE (jsGet data ''views'')) (\<lambda>views.
     returnM \<lparr> resultText = ''Found '' @ countText views @ '' views in table '' @ tableId @ ''.'',
               structuredContent = Some (mkObj [(''baseId'', Some (JStr baseId)),
                                                (''tableId'', Some (JStr tableId)),
                                                (''views'', Some (orEmptyArray views))]),
               resultMeta = None \<rparr>)))"

text \<open>The conditional \<open>params.append\<close> calls of \<open>list_records\<close> and \<open>query_records\<close>.\<close>

definition stringParam :: "string \<Rightarrow> string option \<Rightarrow> (string \<times> string) list" where
  "stringParam name v = (case v of None \<Rightarrow> [] | Some x \<Rightarrow> if x \<noteq> [] then [(name, x)] else [])"

definition numberParam :: "string \<Rightarrow> int option \<Rightarrow> (string \<times> string) list" where
  "numberParam name v =
     (case v of None \<Rightarrow> [] | Some n \<Rightarrow> if n \<noteq> 0 then [(name, showInt n)] else [])"

definition sortParams :: "sort_spec list option \<Rightarrow> (string \<times> string) list" where
  "sortParams v =
     (case v of
        None \<Rightarrow> []
      | Some specs \<Rightarrow>
          map (\<lambda>s. (''sort[]'',
                    ''{\"field\":'' @ quoteJSONString (sortField s) @ '',\"direction\":''
                    @ quoteJSONString (case sortDirection s of
                                         None \<Rightarrow> ''asc''
                                       | Some d \<Rightarrow> if d \<noteq> [] then d else ''asc'')
                    @ ''}'')) specs)"

definition fieldsParams :: "string list option \<Rightarrow> (string \<times> string) list" where
  "fieldsParams v = (case v of None \<Rightarrow> [] | Some fs \<Rightarrow> map (\<lambda>f. (''fields[]'', f)) fs)"

definition tool_list_records :: "api \<Rightarrow> members \<Rightarrow> tool_result action" where
  "tool_list_records api a =
     bindM (liftE (listRecordsParser a)) (\<lambda>args.
     (let params = stringParam ''view'' (lrView args)
                   @ stringParam ''filterByFormula'' (lrFilterByFormula args)
                   @ numberParam ''maxRecords'' (lrMaxRecords args)
                   @ numberParam ''pageSize'' (lrPageSize args)
                   @ stringParam ''offset'' (lrOffset args)
                   @ sortParams (lrSort args)
                   @ fieldsParams (lrFields args)
      in
     bindM (api (''/'' @ lrBaseId args @ ''/'' @ lrTableId args @ ''?''
                 @ searchParamsToString params) ''GET'' None) (\<lambda>data.
     bindM (liftE (jsGet data ''records'')) (\<lambda>records.
     bindM (liftE (jsGet data ''offset'')) (\<lambda>offset.
     returnM \<lparr> resultText = ''Found '' @ countText records @ '' records in table ''
                              @ lrTableId args @ ''.'',
               structuredContent = Some (mkObj [(''baseId'', Some (JStr (lrBaseId args))),
                                                (''tableId'', Some (JStr (lrTableId args))),
                                                (''records'', Some (orEmptyArray records)),
                                                (''offset'', offset)]),
               resultMeta = metaOf ''list-records'' \<rparr>)))))"

definition tool_get_record :: "api \<Rightarrow> members \<Rightarrow> tool_result action" where
  "tool_get_record api a =
     bindM (liftE (getRecordParser a)) (\<lambda>(baseId, tableId, recordId).
     bindM (api (''/'' @ baseId @ ''/'' @ tableId @ ''/'' @ recordId) ''GET'' None) (\<lambda>data.
     returnM \<lparr> resultText = ''Retrieved record '' @ recordId @ '' from table '' @ tableId @ ''.'',
               structuredContent = Some (mkObj [(''baseId'', Some (JStr baseId)),
                                                (''tableId'', Some (JStr tableId)),
                                                (''record'', Some data)]),
               resultMeta = metaOf ''get-record'' \<rparr>))"

definition tool_create_record :: "api \<Rightarrow> members \<Rightarrow> tool_result action" where
  "tool_create_record api a =
     bindM (liftE (createRecordParser a)) (\<lambda>(baseId, tableId, fields).
     bindM (api (''/'' @ baseId @ ''/'' @ tableId) ''POST''
              (Some (mkObj [(''fields'', Some (JObj fields))]))) (\<lambda>data.
     returnM \<lparr> resultText = ''Successfully created record in table '' @ tableId @ ''.'',
               structuredContent = Some (mkObj [(''baseId'', Some (JStr baseId)),
                                                (''tableId'', Some (JStr tableId)),
                                                (''record'', Some data)]),
               resultMeta = metaOf ''create-records'' \<rparr>))"

definition tool_update_record :: "api \<Rightarrow> members \<Rightarrow> tool_result action" where
  "tool_update_record api a =
     bindM (liftE (updateRecordParser a)) (\<lambda>(baseId, tableId, recordId, fields).
     bindM (api (''/'' @ baseId @ ''/'' @ tableId @ ''/'' @ recordId) ''PATCH''
              (Some (mkObj [(''fields'', Some (JObj fields))]))) (\<lambda>data.
     returnM \<lparr> resultText = ''Successfully updated record '' @ recordId @ '' in table ''
                              @ tableId @ ''.'',
               structuredContent = Some (mkObj [(''baseId'', Some (JStr baseId)),
                                                (''tableId'', Some (JStr tableId)),
                                                (''recordId'', Some (JStr recordId)),
                                                (''record'', Some data)]),
               resultMeta = metaOf ''update-record'' \<rparr>))"

definition tool_replace_record :: "api \<Rightarrow> members \<Rightarrow> tool_result action" where
  "tool_replace_record api a =
     bindM (liftE (replaceRecordParser a)) (\<lambda>(baseId, tableId, recordId, fields).
     bindM (api (''/'' @ baseId @ ''/'' @ tableId @ ''/'' @ recordId) ''PUT''
              (Some (mkObj [(''fields'', Some (JObj fields))]))) (\<lambda>data.
     returnM \<lparr> resultText = ''Successfully replaced record '' @ recordId @ '' in table ''
                              @ tableId @ ''.'',
               structuredContent = Some (mkObj [(''baseId'', Some (JStr baseId)),
                                                (''tableId'', Some (JStr tableId)),
                                                (''recordId'', Some (JStr recordId)),
                                                (''record'', Some data)]),
               resultMeta = None \<rparr>))"

definition tool_delete_record :: "api \<Rightarrow> members \<Rightarrow> tool_result action" where
  "tool_delete_record api a =
     bindM (liftE (deleteRecordParser a)) (\<lambda>(baseId, tableId, recordId).
     bindM (api (''/'' @ baseId @ ''/'' @ tableId @ ''/'' @ recordId) ''DELETE'' None) (\<lambda>data.
     returnM \<lparr> resultText = ''Successfully deleted record '' @ recordId @ '' from table ''
                              @ tableId @ ''.'',
               structuredContent = None,
               resultMeta = None \<rparr>))"

definition tool_batch_create_records :: "api \<Rightarrow> members \<Rightarrow> tool_result action" where
  "tool_batch_create_records api a =
     bindM (liftE (batchCreateRecordsParser a)) (\<lambda>(baseId, tableId, recs).
     bindM (api (''/'' @ baseId @ ''/'' @ tableId) ''POST''
              (Some (mkObj [(''records'',
                 Some (JArr (map (\<lambda>f. mkObj [(''fields'', Some (JObj f))]) recs)))]))) (\<lambda>data.
     bindM (liftE (jsGet data ''records'')) (\<lambda>records.
     returnM \<lparr> resultText = ''Successfully created '' @ countText records
                              @ '' records in table '' @ tableId @ ''.'',
               structuredContent = Some (mkObj [(''baseId'', Some (JStr baseId)),
                                                (''tableId'', Some (JStr tableId)),
                                                (''records'', Some (orEmptyArray records))]),
               resultMeta = None \<rparr>)))"

definition tool_batch_update_records :: "api \<Rightarrow> members \<Rightarrow> tool_result action" where
  "tool_batch_update_records api a =
     bindM (liftE (batchUpdateRecordsParser a)) (\<lambda>(baseId, tableId, recs).
     bindM (api (''/'' @ baseId @ ''/'' @ tableId) ''PATCH''
              (Some (mkObj [(''records'',
                 Some (JArr (map (\<lambda>(i, f). mkObj [(''id'', Some (JStr i)),
                                                   (''fields'', Some (JObj f))]) recs)))])))
       (\<lambda>data.
     bindM (liftE (jsGet data ''records'')) (\<lambda>records.
     returnM \<lparr> resultText = ''Successfully updated '' @ countText records
                              @ '' records in table '' @ tableId @ ''.'',
               structuredContent = Some (mkObj [(''baseId'', Some (JStr baseId)),
                                                (''tableId'', Some (JStr tableId)),
                                                (''records'', Some (orEmptyArray records))]),
               resultMeta = None \<rparr>)))"

definition tool_batch_delete_records :: "api \<Rightarrow> members \<Rightarrow> tool_result action" where
  "tool_batch_delete_records api a =
     bindM (liftE (batchDeleteRecordsParser a)) (\<lambda>(baseId, tableId, recordIds).
     bindM (api (''/'' @ baseId @ ''/'' @ tableId @ ''?''
                 @ searchParamsToString (map (\<lambda>i. (''records[]'', i)) recordIds))
              ''DELETE'' None) (\<lambda>data.
     bindM (liftE (jsGet data ''records'')) (\<lambda>records.
     returnM \<lparr> resultText = ''Successfully deleted '' @ showNat (length recordIds)
                              @ '' records from table '' @ tableId @ ''.'',
               structuredContent = Some (mkObj [(''baseId'', Some (JStr baseId)),
                                                (''tableId'', Some (JStr tableId)),
                                                (''deleted'', Some (orEmptyArray records))]),
               resultMeta = None \<rparr>)))"

definition tool_query_records :: "api \<Rightarrow> members \<Rightarrow> tool_result action" where
  "tool_query_records api a =
     bindM (liftE (queryRecordsParser a)) (\<lambda>args.
     (let params = stringParam ''filterByFormula'' (lrFilterByFormula args)
                   @ stringParam ''view'' (lrView args)
                   @ numberParam ''maxRecords'' (lrMaxRecords args)
                   @ sortParams (lrSort args)
                   @ fieldsParams (lrFields args)
      in
     bindM (api (''/'' @ lrBaseId args @ ''/'' @ lrTableId args @ ''?''
                 @ searchParamsToString params) ''GET'' None) (\<lambda>data.
     bindM (liftE (jsGet data ''records'')) (\<lambda>records.
     bindM (liftE (jsGet data ''offset'')) (\<lambda>offset.
     returnM \<lparr> resultText = ''Query returned '' @ countText records @ '' records from table ''
                              @ lrTableId args @ ''.'',
               structuredContent = Some (mkObj [(''baseId'', Some (JStr (lrBaseId args))),
                                                (''tableId'', Some (JStr (lrTableId args))),
                                                (''records'', Some (orEmptyArray records)),
                                                (''offset'', offset)]),
               resultMeta = None \<rparr>)))))"

definition tool_get_view_records :: "api \<Rightarrow> members \<Rightarrow> tool_result action" where
  "tool_get_view_records api a =
     bindM (liftE (getViewRecordsParser a)) (\<lambda>(baseId, tableId, viewId, maxRecords).
     (let params = [(''view'', viewId)] @ numberParam ''maxRecords'' maxRecords in
     bindM (api (''/'' @ baseId @ ''/'' @ tableId @ ''?'' @ searchParamsToString params)
              ''GET'' None) (\<lambda>data.
     bindM (liftE (jsGet data ''records'')) (\<lambda>records.
     returnM \<lparr> resultText = ''View '' @ viewId @ '' contains '' @ countText records
                              @ '' records.'',
               structuredContent = Some (mkObj [(''baseId'', Some (JStr baseId)),
                                                (''tableId'', Some (JStr tableId)),
                                                (''viewId'', Some (JStr viewId)),
                                                (''records'', Some (orEmptyArray records))]),
               resultMeta = None \<rparr>))))"

text \<open>\<open>try { ... } catch (error) { ... }\<close>.\<close>

definition catchM :: "'a action \<Rightarrow> (error \<Rightarrow> 'a action) \<Rightarrow> 'a action" where
  "catchM m h s = (case m s of (Inl e, s1) \<Rightarrow> h e s1 | (Inr a, s1) \<Rightarrow> (Inr a, s1))"

text \<open>\<open>[...v]\<close>: an array or a string can be spread, nothing else that is truthy.\<close>

definition spread :: "json \<Rightarrow> error + json list" where
  "spread v =
     (case v of
        JArr xs \<Rightarrow> Inr xs
      | JStr s \<Rightarrow> Inr (map (\<lambda>c. JStr [c]) s)
      | _ \<Rightarrow> Inl (TypeError ''currentAttachments is not iterable''))"

definition tool_upload_attachment :: "api \<Rightarrow> members \<Rightarrow> tool_result action" where
  "tool_upload_attachment api a =
     bindM (liftE (uploadAttachmentParser a)) (\<lambda>args.
     bindM (api (''/'' @ uaBaseId args @ ''/'' @ uaTableId args @ ''/'' @ uaRecordId args)
              ''GET'' None) (\<lambda>record.
     bindM (liftE (bindE (jsGet record ''fields'') (\<lambda>fields.
                   jsGetOpt fields (uaFieldName args)))) (\<lambda>current.
     (let currentAttachments = orEmptyArray current;
          fromUrl = last (splitOn CHR ''/'' (uaUrl args));
          filename = (if truthyStr (uaFilename args)
                      then (case uaFilename args of Some f \<Rightarrow> f | None \<Rightarrow> [])
                      else if fromUrl \<noteq> [] then fromUrl else ''attachment'');
          newAttachment = mkObj [(''url'', Some (JStr (uaUrl args))),
                                 (''filename'', Some (JStr filename))]
      in
     bindM (liftE (spread currentAttachments)) (\<lambda>olds.
     (let updatedFields = JObj [(uaFieldName args, JArr (olds @ [newAttachment]))] in
     bindM (api (''/'' @ uaBaseId args @ ''/'' @ uaTableId args @ ''/'' @ uaRecordId args)
              ''PATCH'' (Some (mkObj [(''fields'', Some updatedFields)]))) (\<lambda>data.
     returnM \<lparr> resultText = ''Successfully attached file to record '' @ uaRecordId args @ ''.'',
               structuredContent =
                 Some (mkObj [(''baseId'', Some (JStr (uaBaseId args))),
                              (''tableId'', Some (JStr (uaTableId args))),
                              (''recordId'', Some (JStr (uaRecordId args))),
                              (''attachment'', Some newAttachment)]),
               resultMeta = None \<rparr>)))))))"

definition tool_list_attachments :: "api \<Rightarrow> members \<Rightarrow> tool_result action" where
  "tool_list_attachments api a =
     bindM (liftE (listAttachmentsParser a)) (\<lambda>(baseId, tableId, recordId, fieldName).
     bindM (api (''/'' @ baseId @ ''/'' @ tableId @ ''/'' @ recordId) ''GET'' None) (\<lambda>record.
     bindM (liftE (bindE (jsGet record ''fields'') (\<lambda>fields.
                   jsGetOpt fields fieldName))) (\<lambda>current.
     (let attachments = orEmptyArray current in
     bindM (liftE (jsGet attachments ''length'')) (\<lambda>len.
     returnM \<lparr> resultText = ''Found '' @ templateString len @ '' attachments on record ''
                              @ recordId @ ''.'',
               structuredContent = Some (mkObj [(''baseId'', Some (JStr baseId)),
                                                (''tableId'', Some (JStr tableId)),
                                                (''recordId'', Some (JStr recordId)),
                                                (''fieldName'', Some (JStr fieldName)),
                                                (''attachments'', Some attachments)]),
               resultMeta = None \<rparr>)))))"

definition tool_get_comments :: "api \<Rightarrow> members \<Rightarrow> tool_result action" where
  "tool_get_comments api a =
     bindM (liftE (getCommentsParser a)) (\<lambda>(baseId, tableId, recordId).
     catchM
       (bindM (api (''/'' @ baseId @ ''/'' @ tableId @ ''/'' @ recordId @ ''/comments'')
                 ''GET'' None) (\<lambda>data.
        bindM (liftE (jsGet data ''comments'')) (\<lambda>comments.
        returnM \<lparr> resultText = ''Found '' @ countText comments @ '' comments on record ''
                                 @ recordId @ ''.'',
                  structuredContent = Some (mkObj [(''baseId'', Some (JStr baseId)),
                                                   (''tableId'', Some (JStr tableId)),
                                                   (''recordId'', Some (JStr recordId)),
                                                   (''comments'', Some (orEmptyArray comments))]),
                  resultMeta = None \<rparr>)))
       (\<lambda>err.
        returnM \<lparr> resultText =
                    ''Comments API not available or record does not support comments: ''
                    @ message err,
                  structuredContent = None,
                  resultMeta = None \<rparr>))"

definition tool_create_comment :: "api \<Rightarrow> members \<Rightarrow> tool_result action" where
  "tool_create_comment api a =
     bindM (liftE (createCommentParser a)) (\<lambda>(baseId, tableId, recordId, txt).
     catchM
       (bindM (api (''/'' @ baseId @ ''/'' @ tableId @ ''/'' @ recordId @ ''/comments'')
                 ''POST'' (Some (mkObj [(''text'', Some (JStr txt))]))) (\<lambda>data.
        returnM \<lparr> resultText = ''Successfully created comment on record '' @ recordId @ ''.'',
                  structuredContent = Some (mkObj [(''baseId'', Some (JStr baseId)),
                                                   (''tableId'', Some (JStr tableId)),
                                                   (''recordId'', Some (JStr recordId)),
                                                   (''comment'', Some data)]),
                  resultMeta = metaOf ''create-comment'' \<rparr>))
       (\<lambda>err.
        returnM \<lparr> resultText = ''Failed to create comment: '' @ message err,
                  structuredContent = None,
                  resultMeta = None \<rparr>))"

text \<open>\<open>v > 0\<close> for a value read from a payload.\<close>

definition greaterThanZero :: "environment \<Rightarrow> json option \<Rightarrow> bool" where
  "greaterThanZero env v =
     (case v of
        None \<Rightarrow> False
      | Some JNull \<Rightarrow> False
      | Some (JBool b) \<Rightarrow> b
      | Some (JNum n) \<Rightarrow> n > 0
      | Some (JStr s) \<Rightarrow> stringToNumberPositive env s
      | Some (JArr xs) \<Rightarrow> stringToNumberPositive env (jsToString (JArr xs))
      | Some (JObj kv) \<Rightarrow> False)"

definition tool_upsert_record :: "environment \<Rightarrow> api \<Rightarrow> members \<Rightarrow> tool_result action" where
  "tool_upsert_record env api a =
     bindM (liftE (upsertRecordParser a)) (\<lambda>args.
     (let searchParams = [(''filterByFormula'',
                           ''{'' @ urUniqueField args @ ''}=\"'' @ urUniqueValue args @ ''\"'')];
          body = mkObj [(''fields'', Some (JObj (urFields args))),
                        (''typecast'', map_option JBool (urTypecast args))]
      in
     bindM (api (''/'' @ urBaseId args @ ''/'' @ urTableId args @ ''?''
                 @ searchParamsToString searchParams) ''GET'' None) (\<lambda>searchResult.
     bindM (liftE (jsGet searchResult ''records'')) (\<lambda>records.
     if truthy records
        \<and> greaterThanZero env
             (case jsGetOpt records ''length'' of Inl e \<Rightarrow> None | Inr l \<Rightarrow> l)
     then
       bindM (liftE (bindE (jsGetOpt records ''0'') (\<lambda>first. jsGetOpt first ''id'')))
         (\<lambda>recordId.
       bindM (api (''/'' @ urBaseId args @ ''/'' @ urTableId args @ ''/''
                   @ templateString recordId) ''PATCH'' (Some body)) (\<lambda>data.
       returnM \<lparr> resultText = ''Updated existing record '' @ templateString recordId
                                @ '' in table '' @ urTableId args @ ''.'',
                 structuredContent =
                   Some (mkObj [(''baseId'', Some (JStr (urBaseId args))),
                                (''tableId'', Some (JStr (urTableId args))),
                                (''recordId'', recordId),
                                (''record'', Some data),
                                (''action'', Some (JStr ''updated''))]),
                 resultMeta = None \<rparr>))
     else
       bindM (api (''/'' @ urBaseId args @ ''/'' @ urTableId args) ''POST'' (Some body))
         (\<lambda>data.
       returnM \<lparr> resultText = ''Created new record in table '' @ urTableId args @ ''.'',
                 structuredContent =
                   Some (mkObj [(''baseId'', Some (JStr (urBaseId args))),
                                (''tableId'', Some (JStr (urTableId args))),
                                (''record'', Some data),
                                (''action'', Some (JStr ''created''))]),
                 resultMeta = None \<rparr>)))))"

text \<open>
  \<open>schema.fields.map((f) => [f.name, f])\<close>, the entries of \<open>fieldMap\<close>, and
  \<open>fieldMap.get\<close>: of the entries with an equal key the last one set stays.
\<close>

definition fieldEntries :: "json option \<Rightarrow> error + (json option \<times> json) list" where
  "fieldEntries schemaFields =
     (case schemaFields of
        None \<Rightarrow> Inl (TypeError (''Cannot read properties of undefined (reading ''
                                 @ [CHR 0x27] @ ''map'' @ [CHR 0x27] @ '')''))
      | Some JNull \<Rightarrow> Inl (TypeError (''Cannot read properties of null (reading ''
                                       @ [CHR 0x27] @ ''map'' @ [CHR 0x27] @ '')''))
      | Some (JArr fs) \<Rightarrow> traverseE (\<lambda>f. bindE (jsGet f ''name'') (\<lambda>n. Inr (n, f))) fs
      | Some other \<Rightarrow> Inl (TypeError ''schema.fields.map is not a function''))"

definition fieldMapGet :: "(json option \<times> json) list \<Rightarrow> string \<Rightarrow> json option" where
  "fieldMapGet entries fieldName =
     (case filter (\<lambda>(n, f). n = Some (JStr fieldName)) entries of
        [] \<Rightarrow> None
      | m # ms \<Rightarrow> Some (snd (last (m # ms))))"

definition validateField :: "(json option \<times> json) list \<Rightarrow> string \<times> json \<Rightarrow> bool \<times> json" where
  "validateField entries entry =
     (case entry of (fieldName, v) \<Rightarrow>
      (case (if truthy (fieldMapGet entries fieldName) then fieldMapGet entries fieldName
             else None) of
         None \<Rightarrow>
           (False, mkObj [(''field'', Some (JStr fieldName)),
                          (''valid'', Some (JBool False)),
                          (''error'', Some (JStr ''Field does not exist in table''))])
       | Some field \<Rightarrow>
           (let fieldType = (case jsGet field ''type'' of Inl e \<Rightarrow> None | Inr t \<Rightarrow> t);
                isOneOf = (\<lambda>names. fieldType \<in> set (map (\<lambda>n. Some (JStr n)) names));
                expect = (\<lambda>valid what.
                            (valid, if valid then JNull
                                    else JStr (''Expected '' @ what @ '', got '' @ typeof v)));
                verdict =
                  (if isOneOf [''singleLineText'', ''multilineText'', ''email'', ''url'',
                               ''phoneNumber'']
                   then expect (typeof v = ''string'') ''string''
                   else if isOneOf [''number'', ''percent'', ''currency'']
                   then expect (typeof v = ''number'') ''number''
                   else if isOneOf [''date'', ''dateTime'']
                   then expect (typeof v = ''string'') ''date string''
                   else if isOneOf [''checkbox'']
                   then expect (typeof v = ''boolean'') ''boolean''
                   else if isOneOf [''multipleSelects'', ''multipleRecordLinks'']
                   then expect (case v of JArr xs \<Rightarrow> True | _ \<Rightarrow> False) ''array''
                   else (True, JNull))
            in (fst verdict,
                mkObj [(''field'', Some (JStr fieldName)),
                       (''valid'', Some (JBool (fst verdict))),
                       (''error'', Some (snd verdict)),
                       (''fieldType'', fieldType)]))))"

definition tool_validate_schema_compatibility :: "api \<Rightarrow> members \<Rightarrow> tool_result action" where
  "tool_validate_schema_compatibility api a =
     bindM (liftE (validateSchemaCompatibilityParser a)) (\<lambda>(baseId, tableId, fields).
     bindM (api (''/meta/bases/'' @ baseId @ ''/tables/'' @ tableId) ''GET'' None) (\<lambda>schema.
     bindM (liftE (bindE (jsGet schema ''fields'') fieldEntries)) (\<lambda>entries.
     (let validationResults = map (validateField entries) fields;
          allValid = list_all fst validationResults
      in
     returnM \<lparr> resultText = (if allValid
                              then ''All fields are compatible with the table schema.''
                              else ''Some fields are incompatible with the table schema.''),
               structuredContent =
                 Some (mkObj [(''baseId'', Some (JStr baseId)),
                              (''tableId'', Some (JStr tableId)),
                              (''valid'', Some (JBool allValid)),
                              (''validationResults'',
                               Some (JArr (map snd validationResults)))]),
               resultMeta = None \<rparr>))))"

subsection \<open>The catalog and the \<open>CallToolRequest\<close> handler\<close>

text \<open>
  The catalog \<open>tools\<close>: of each entry its name, its hints and the widget whose
  metadata it carries (the description and the input schema are left out).
\<close>

record tool =
  toolName :: string
  destructiveHint :: bool
  readOnlyHint :: bool
  toolWidget :: "string option"

definition tools :: "tool list" where
  "tools =
     [\<lparr>toolName = ''list_bases'', destructiveHint = False, readOnlyHint = True, toolWidget = None\<rparr>,
      \<lparr>toolName = ''get_base_schema'', destructiveHint = False, readOnlyHint = True, toolWidget = None\<rparr>,
      \<lparr>toolName = ''list_tables'', destructiveHint = False, readOnlyHint = True, toolWidget = None\<rparr>,
      \<lparr>toolName = ''list_fields'', destructiveHint = False, readOnlyHint = True, toolWidget = None\<rparr>,
      \<lparr>toolName = ''list_views'', destructiveHint = False, readOnlyHint = True, toolWidget = None\<rparr>,
      \<lparr>toolName = ''list_records'', destructiveHint = False, readOnlyHint = True,
        toolWidget = Some ''list-records''\<rparr>,
      \<lparr>toolName = ''get_record'', destructiveHint = False, readOnlyHint = True,
        toolWidget = Some ''get-record''\<rparr>,
      \<lparr>toolName = ''create_record'', destructiveHint = False, readOnlyHint = False,
        toolWidget = Some ''create-records''\<rparr>,
      \<lparr>toolName = ''update_record'', destructiveHint = False, readOnlyHint = False,
        toolWidget = Some ''update-record''\<rparr>,
      \<lparr>toolName = ''replace_record'', destructiveHint = True, readOnlyHint = False, toolWidget = None\<rparr>,
      \<lparr>toolName = ''delete_record'', destructiveHint = True, readOnlyHint = False, toolWidget = None\<rparr>,
      \<lparr>toolName = ''batch_create_records'', destructiveHint = False, readOnlyHint = False,
        toolWidget = None\<rparr>,
      \<lparr>toolName = ''batch_update_records'', destructiveHint = False, readOnlyHint = False,
        toolWidget = None\<rparr>,
      \<lparr>toolName = ''batch_delete_records'', destructiveHint = True, readOnlyHint = False,
        toolWidget = None\<rparr>,
      \<lparr>toolName = ''query_records'', destructiveHint = False, readOnlyHint = True, toolWidget = None\<rparr>,
      \<lparr>toolName = ''get_view_records'', destructiveHint = False, readOnlyHint = True,
        toolWidget = None\<rparr>,
      \<lparr>toolName = ''upload_attachment'', destructiveHint = False, readOnlyHint = False,
        toolWidget = None\<rparr>,
      \<lparr>toolName = ''list_attachments'', destructiveHint = False, readOnlyHint = True,
        toolWidget = None\<rparr>,
      \<lparr>toolName = ''get_comments'', destructiveHint = False, readOnlyHint = True, toolWidget = None\<rparr>,
      \<lparr>toolName = ''create_comment'', destructiveHint = False, readOnlyHint = False,
        toolWidget = Some ''create-comment''\<rparr>,
      \<lparr>toolName = ''upsert_record'', destructiveHint = False, readOnlyHint = False, toolWidget = None\<rparr>,
      \<lparr>toolName = ''validate_schema_compatibility'', destructiveHint = False, readOnlyHint = True,
        toolWidget = None\<rparr>]"

text \<open>The \<open>switch (toolName)\<close> of the handler.\<close>

definition toolSwitch ::
  "environment \<Rightarrow> api \<Rightarrow> string \<Rightarrow> members option \<Rightarrow> tool_result action" where
  "toolSwitch env api name arguments =
     (let a = argumentsOrEmpty arguments in
      if name = ''list_bases'' then tool_list_bases api
      else if name = ''get_base_schema'' then tool_get_base_schema api a
      else if name = ''list_tables'' then tool_list_tables api a
      else if name = ''list_fields'' then tool_list_fields api a
      else if name = ''list_views'' then tool_list_views api a
      else if name = ''list_records'' then tool_list_records api a
      else if name = ''get_record'' then tool_get_record api a
      else if name = ''create_record'' then tool_create_record api a
      else if name = ''update_record'' then tool_update_record api a
      else if name = ''replace_record'' then tool_replace_record api a
      else if name = ''delete_record'' then tool_delete_record api a
      else if name = ''batch_create_records'' then tool_batch_create_records api a
      else if name = ''batch_update_records'' then tool_batch_update_records api a
      else if name = ''batch_delete_records'' then tool_batch_delete_records api a
      else if name = ''query_records'' then tool_query_records api a
      else if name = ''get_view_records'' then tool_get_view_records api a
      else if name = ''upload_attachment'' then tool_upload_attachment api a
      else if name = ''list_attachments'' then tool_list_attachments api a
      else if name = ''get_comments'' then tool_get_comments api a
      else if name = ''create_comment'' then tool_create_comment api a
      else if name = ''upsert_record'' then tool_upsert_record env api a
      else if name = ''validate_schema_compatibility''
      then tool_validate_schema_compatibility api a
      else throwM (Error (''Unknown tool: '' @ name)))"

text \<open>
  The first part of the handler, which sets \<open>accessToken\<close>: the stored token of the
  session when \<open>authSessions\<close> has one, else the token of a cached
  \<open>Authorization: Bearer\<close> header, which is then stored with an empty refresh token
  and an expiry one hour ahead, else \<open>null\<close>.
\<close>

definition authorizationGate ::
  "config \<Rightarrow> environment \<Rightarrow> int \<Rightarrow> int \<Rightarrow> string \<Rightarrow> string option action" where
  "authorizationGate cfg env now now' sessionId s =
     (case authSessions s sessionId of
        Some session \<Rightarrow>
          bindM (getValidAccessToken cfg env now now' sessionId) (\<lambda>t. returnM (Some t)) s
      | None \<Rightarrow>
         (case sessionAuthHeaders s sessionId of
            None \<Rightarrow> (Inr None, s)
          | Some storedAuthHeader \<Rightarrow>
              if storedAuthHeader \<noteq> [] \<and> prefix ''Bearer '' storedAuthHeader
              then (Inr (Some (drop 7 storedAuthHeader)),
                    s\<lparr>authSessions := (authSessions s)
                        (sessionId \<mapsto> \<lparr> accessToken = drop 7 storedAuthHeader,
                                        refreshToken = [],
                                        expiresAt = now + 3600000 \<rparr>)\<rparr>)
              else (Inr None, s)))"

text \<open>
  The handler. \<open>now\<close> is the clock at the expiry test or at the adoption of a header,
  \<open>now'\<close> the clock after a refresh, \<open>now''\<close> the clock when a pending state is
  stored, and \<open>nonce\<close> the random hex string.
\<close>

definition callTool ::
  "config \<Rightarrow> environment \<Rightarrow> int \<Rightarrow> int \<Rightarrow> int \<Rightarrow> string \<Rightarrow> string \<Rightarrow> string \<Rightarrow> members option
     \<Rightarrow> tool_result action" where
  "callTool cfg env now now' now'' nonce sessionId name arguments =
     bindM (authorizationGate cfg env now now' sessionId) (\<lambda>accessTok.
       case (if truthyStr accessTok then accessTok else None) of
         None \<Rightarrow>
           (\<lambda>s. (Inr \<lparr> resultText =
                          ''Please authenticate with Airtable to use this feature. Visit: ''
                          @ generateAuthUrl cfg nonce,
                        structuredContent = None,
                        resultMeta = None \<rparr>,
                  s\<lparr>pendingAuthStates := (pendingAuthStates s)
                      (nonce \<mapsto> \<lparr>pendingSessionId = sessionId, createdAt = now''\<rparr>)\<rparr>))
       | Some tok \<Rightarrow>
           toolSwitch env
             (\<lambda>endpoint meth body.
                airtableApiRequest cfg env now now' sessionId endpoint meth body (Some tok))
             name arguments)"

subsection \<open>Requests to the backend and their failures\<close>

definition isApiRequest :: "fetch_request \<Rightarrow> bool" where
  "isApiRequest rq = prefix AIRTABLE_API_BASE (reqUrl rq)"

definition upstreamError :: "json response \<Rightarrow> error" where
  "upstreamError resp =
     Error (''Airtable API error: '' @ showNat (respStatus resp) @ '' '' @ respText resp)"

text \<open>
  An action that changes nothing of the state but the log, sends to the backend only,
  and throws the backend's status and body when one of the requests it sent was answered
  with a status outside 200..299.
\<close>

definition sendsOnly :: "environment \<Rightarrow> 'a action \<Rightarrow> bool" where
  "sendsOnly env m =
     (\<forall>s. \<exists>new. snd (m s) = s\<lparr>fetchLog := fetchLog s @ new\<rparr>
              \<and> (\<forall>rq \<in> set new. isApiRequest rq
                    \<and> (\<forall>resp. airtableApi env rq = Some resp \<and> \<not> ok resp
                          \<longrightarrow> fst (m s) = Inl (upstreamError resp))))"

subsection \<open>Example inputs\<close>

text \<open>The states, services and files at which the properties below are instantiated.\<close>

definition exConfig :: config where
  "exConfig = \<lparr> AIRTABLE_CLIENT_ID = ''client'', AIRTABLE_CLIENT_SECRET = ''secret'',
                 AIRTABLE_REDIRECT_URI = ''http://localhost:8006/auth/callback'' \<rparr>"

definition exTokenData :: token_data where
  "exTokenData = \<lparr> access_token = ''tok2'', refresh_token = ''ref2'', expires_in = 3600 \<rparr>"

definition exEnvironment :: environment where
  "exEnvironment =
     \<lparr> tokenEndpoint = (\<lambda>rq. Some \<lparr> respStatus = 200, respText = [], respJson = Inr exTokenData \<rparr>),
       airtableApi = (\<lambda>rq. None),
       stringToNumberPositive = (\<lambda>str. False) \<rparr>"

definition emptyState :: server_state where
  "emptyState =
     \<lparr> authSessions = Map.empty, pendingAuthStates = Map.empty, sessions = Map.empty,
       sessionAuthHeaders = Map.empty, transportToSessionId = Map.empty, fetchLog = [] \<rparr>"

definition exSession :: auth_session where
  "exSession = \<lparr> accessToken = ''tok1'', refreshToken = ''ref1'', expiresAt = 1000000 \<rparr>"

definition exAuthState :: server_state where
  "exAuthState = emptyState\<lparr>authSessions := [''s1'' \<mapsto> exSession]\<rparr>"

definition exPendingState :: server_state where
  "exPendingState =
     emptyState\<lparr>pendingAuthStates := [''n1'' \<mapsto> \<lparr>pendingSessionId = ''s1'', createdAt = 0\<rparr>]\<rparr>"

text \<open>
  A session's way to its token state: the stream opened by \<open>GET /mcp\<close> gets the id
  \<open>5f2a\<close>, its first tool call is answered with the authorization URL for the nonce
  \<open>n1\<close>, and the callback for that nonce stores the token of the token endpoint.
\<close>

definition exStreamState :: server_state where
  "exStreamState = snd (sseRoute None ''5f2a'' ''t1'' True True emptyState)"

definition exGuidedState :: server_state where
  "exGuidedState =
     snd (callTool exConfig exEnvironment 1000 1000 1000 ''n1'' ''5f2a'' ''list_bases'' None
            exStreamState)"

definition exOpenState :: server_state where
  "exOpenState =
     snd (handleAuthCallback exConfig exEnvironment 2000 2000 (Some ''code'') (Some ''n1'') None
            exGuidedState)"

definition exFilesystem :: "string \<Rightarrow> filesystem" where
  "exFilesystem content =
     \<lparr> existsSync = (\<lambda>p. p = ''/app/assets'' \<or> p = ''/app/assets/list-records.html''),
       isFile = (\<lambda>p. p = ''/app/assets/list-records.html''),
       readFileSync = (\<lambda>p. if p = ''/app/assets/list-records.html'' then Inr content
                            else Inl ''ENOENT: no such file or directory''),
       readdirSync = (\<lambda>p. if p = ''/app/assets'' then Inr [''list-records.html'']
                           else Inl ''ENOENT: no such file or directory'') \<rparr>"

definition answering :: "nat \<Rightarrow> string \<Rightarrow> json \<Rightarrow> environment" where
  "answering status body payload =
     exEnvironment\<lparr>airtableApi :=
       (\<lambda>rq. Some \<lparr>respStatus = status, respText = body, respJson = Inr payload\<rparr>)\<rparr>"

definition exArguments :: "members option" where
  "exArguments = Some [(''baseId'', JStr ''b''), (''tableId'', JStr ''t''), (''recordId'', JStr ''r'')]"




section \<open>Properties\<close>

subsection \<open>Tokens\<close>

text \<open>
  Claim C2. For a session with a stored token, \<open>getValidAccessToken\<close> returns the
  stored token and leaves the state, the log of calls included, as it was when
  \<open>now < expiry - 5min\<close>. When \<open>expiry - now < 5min\<close> it issues exactly one call, the
  refresh request carrying the stored refresh token, and when that call succeeds the
  stored access token and expiry are overwritten with the refreshed values and the new
  token is returned.
\<close>

theorem getValidAccessToken_refresh_ahead:
  assumes "authSessions s sid = Some sess"
  shows "(now < expiresAt sess - 300000 \<longrightarrow>
            getValidAccessToken cfg env now now' sid s = (Inr (accessToken sess), s))
       \<and> (expiresAt sess - now < 300000 \<longrightarrow>
            fetchLog (snd (getValidAccessToken cfg env now now' sid s))
              = fetchLog s @ [refreshRequest cfg (refreshToken sess)]
          \<and> (\<forall>resp d. tokenEndpoint env (refreshRequest cfg (refreshToken sess)) = Some resp
                \<and> ok resp \<and> respJson resp = Inr d \<longrightarrow>
                fst (getValidAccessToken cfg env now now' sid s) = Inr (access_token d)
              \<and> authSessions (snd (getValidAccessToken cfg env now now' sid s)) sid
                  = Some (sess\<lparr> accessToken := access_token d,
                                 expiresAt := now' + expires_in d * 1000 \<rparr>)))"
  using assms
  by (auto simp: getValidAccessToken_def refreshAccessToken_def tokenResult_def Let_def
           split: option.splits sum.splits prod.splits)

theorem getValidAccessToken_refresh_ahead_witness:
  "getValidAccessToken exConfig exEnvironment 0 0 ''s1'' exAuthState = (Inr ''tok1'', exAuthState)
   \<and> fetchLog (snd (getValidAccessToken exConfig exEnvironment 900000 900500 ''s1'' exAuthState))
       = [refreshRequest exConfig ''ref1'']
   \<and> fst (getValidAccessToken exConfig exEnvironment 900000 900500 ''s1'' exAuthState) = Inr ''tok2''
   \<and> authSessions (snd (getValidAccessToken exConfig exEnvironment 900000 900500 ''s1'' exAuthState)) ''s1''
       = Some \<lparr> accessToken = ''tok2'', refreshToken = ''ref1'', expiresAt = 4500500 \<rparr>"
  using getValidAccessToken_refresh_ahead [where s = exAuthState and sid = "''s1''" and sess = exSession
          and now = 0 and now' = 0 and cfg = exConfig and env = exEnvironment]
        getValidAccessToken_refresh_ahead [where s = exAuthState and sid = "''s1''" and sess = exSession
          and now = 900000 and now' = 900500 and cfg = exConfig and env = exEnvironment]
  by (simp add: exAuthState_def emptyState_def exSession_def exEnvironment_def exTokenData_def ok_def)

subsection \<open>Pending authorizations\<close>

text \<open>
  A pending state that is at most ten minutes old is not touched by the sweep of another
  callback.
\<close>

lemma sweepPending_keeps_fresh:
  assumes "m key = Some v" and "now \<le> createdAt v + 600000"
  shows "sweepPending now m key = Some v"
  using assms by (simp add: sweepPending_def)

text \<open>
  Claim C3. A pending state issued at time 0 for session \<open>s1\<close> is still in the map at
  time 600001, more than ten minutes later, no callback having swept the map in between.
  The callback carrying it looks the state up before the sweep and keeps what it found:
  the code is exchanged, the reply is 200 and the token is installed for \<open>s1\<close>. The
  claim says the exchange is refused.
\<close>

theorem handleAuthCallback_expired_state_accepted:
  "pendingAuthStates exPendingState ''n1'' = Some \<lparr>pendingSessionId = ''s1'', createdAt = 0\<rparr>
   \<and> fst (handleAuthCallback exConfig exEnvironment 600001 600002 (Some ''code'') (Some ''n1'') None
            exPendingState) = \<lparr>replyStatus = 200, replyPage = ConnectedPage\<rparr>
   \<and> authSessions (snd (handleAuthCallback exConfig exEnvironment 600001 600002 (Some ''code'')
            (Some ''n1'') None exPendingState)) ''s1''
       = Some \<lparr> accessToken = ''tok2'', refreshToken = ''ref2'', expiresAt = 4200002 \<rparr>"
  by (simp add: handleAuthCallback_def exPendingState_def emptyState_def exEnvironment_def
        exTokenData_def truthyStr_def exchangeCodeForToken_def tokenResult_def ok_def Let_def
        sweepPending_def)

subsection \<open>The message endpoint\<close>

text \<open>
  Claim C7, as stated, fails where the parameter is present and empty
  (\<open>POST /mcp/messages?sessionId=\<close>): it names no registered transport, and the reply
  is 400, not 404.
\<close>

theorem handlePostMessage_empty_sessionId_counterexample:
  "sessions emptyState [] = None
   \<and> replyStatus (fst (handlePostMessage (Some []) None (Handled 202) emptyState)) = 400
   \<and> replyStatus (fst (handlePostMessage (Some []) None (Handled 202) emptyState)) \<noteq> 404"
  by (simp add: handlePostMessage_def truthyStr_def emptyState_def)

text \<open>
  Claim C7, amended. A post whose \<open>sessionId\<close> parameter is absent or empty is answered
  400; a post whose parameter is not empty and names no registered transport is answered
  404. Neither is answered 500, and neither changes the state.
\<close>

theorem handlePostMessage_missing_or_unknown:
  "((sessionIdParam = None \<or> sessionIdParam = Some []) \<longrightarrow>
      handlePostMessage sessionIdParam authHdr sdk s
        = (\<lparr>replyStatus = 400, replyPage = PlainText ''Missing sessionId query parameter''\<rparr>, s))
   \<and> (\<forall>sid. sessionIdParam = Some sid \<and> sid \<noteq> [] \<and> sessions s sid = None \<longrightarrow>
      handlePostMessage sessionIdParam authHdr sdk s
        = (\<lparr>replyStatus = 404, replyPage = PlainText ''Unknown session''\<rparr>, s))"
  by (auto simp: handlePostMessage_def truthyStr_def)

theorem handlePostMessage_missing_or_unknown_witness:
  "replyStatus (fst (handlePostMessage None None (Handled 202) emptyState)) = 400
   \<and> replyStatus (fst (handlePostMessage (Some []) None (Handled 202) emptyState)) = 400
   \<and> replyStatus (fst (handlePostMessage (Some ''t9'') None (Handled 202) emptyState)) = 404"
  using handlePostMessage_missing_or_unknown [where sessionIdParam = None and authHdr = None
          and sdk = "Handled 202" and s = emptyState]
        handlePostMessage_missing_or_unknown [where sessionIdParam = "Some []" and authHdr = None
          and sdk = "Handled 202" and s = emptyState]
        handlePostMessage_missing_or_unknown [where sessionIdParam = "Some ''t9''" and authHdr = None
          and sdk = "Handled 202" and s = emptyState]
  by (simp add: emptyState_def)

subsection \<open>Closing a transport\<close>

text \<open>
  Opening a stream binds the transport to a session id that is not empty: the id given,
  or else the random hex string (32 digits in the program).
\<close>

lemma handleSseRequest_binds:
  assumes "rand \<noteq> []"
  shows "\<exists>sid. sid \<noteq> [] \<and>
     transportToSessionId (snd (handleSseRequest sessionId authHdr rand tid connected hs s)) tid = Some sid"
  using assms by (auto simp: handleSseRequest_def Let_def split: option.splits)

text \<open>
  The hook does not return: whatever room the stack has, the nested runs use it up, and
  the process ends.
\<close>

lemma onclose_throws:
  "fst (onclose stack tid s) = Inl (RangeError ''Maximum call stack size exceeded'')"
  by (induction stack arbitrary: s) (simp_all add: Let_def)

lemma transportClosed_exits:
  "transportClosed stack tid s = Exited (RangeError ''Maximum call stack size exceeded'')"
  using onclose_throws [of stack tid s]
  by (cases "onclose stack tid s") (simp add: transportClosed_def)

text \<open>
  What the runs of the hook leave in the maps is what its first run leaves there: the
  transport's entries in \<open>sessions\<close> and \<open>transportToSessionId\<close> and the session's cached
  \<open>Authorization\<close> header are deleted, nothing else is touched.
\<close>

lemma onclose_once_again:
  "snd (onclose (Suc 0) tid (snd (onclose (Suc 0) tid s))) = snd (onclose (Suc 0) tid s)"
  by (simp add: Let_def split: option.splits)

lemma onclose_state:
  "snd (onclose (Suc stack) tid s) = snd (onclose (Suc 0) tid s)"
proof (induction stack arbitrary: s)
  case 0
  show ?case by simp
next
  case (Suc n)
  have "snd (onclose (Suc (Suc n)) tid s) = snd (onclose (Suc n) tid (snd (onclose (Suc 0) tid s)))"
    by (simp add: Let_def)
  also have "\<dots> = snd (onclose (Suc 0) tid (snd (onclose (Suc 0) tid s)))"
    by (rule Suc.IH)
  also have "\<dots> = snd (onclose (Suc 0) tid s)" by (rule onclose_once_again)
  finally show ?case .
qed

lemma onclose_deletes:
  assumes "transportToSessionId s tid = Some sid" and "sid \<noteq> []"
  shows "sessions (snd (onclose (Suc stack) tid s)) = (sessions s)(tid := None)
       \<and> transportToSessionId (snd (onclose (Suc stack) tid s)) = (transportToSessionId s)(tid := None)
       \<and> sessionAuthHeaders (snd (onclose (Suc stack) tid s)) = (sessionAuthHeaders s)(sid := None)
       \<and> authSessions (snd (onclose (Suc stack) tid s)) = authSessions s
       \<and> pendingAuthStates (snd (onclose (Suc stack) tid s)) = pendingAuthStates s
       \<and> fetchLog (snd (onclose (Suc stack) tid s)) = fetchLog s"
  unfolding onclose_state [of stack] using assms by (simp add: Let_def)

text \<open>
  Claim C9. The session \<open>5f2a\<close> has the token state the authorization callback stored,
  and its tool calls are served. When its stream closes, the hook deletes the
  transport's entries and then closes the server, which runs the hook again: for every
  room \<open>stack\<close> the call stack has, the hook ends in a \<open>RangeError\<close> and the process
  exits, so that the token state, which lives in the process's memory, is not kept.
  And in the maps as the hook's statements leave them, where \<open>authSessions\<close> still has
  the entry of \<open>5f2a\<close>, the stream the client opens again by \<open>GET /mcp\<close> is bound to a
  new random id, here \<open>77c1\<close>, for which no token state is stored: its tool call is
  answered with the request to authenticate.
\<close>

theorem closed_stream_loses_token_state:
  "authSessions exOpenState ''5f2a''
     = Some \<lparr>accessToken = ''tok2'', refreshToken = ''ref2'', expiresAt = 3602000\<rparr>
   \<and> transportToSessionId exOpenState ''t1'' = Some ''5f2a''
   \<and> fst (callTool exConfig (answering 200 [] (JObj [])) 3000 3000 3000 ''n2'' ''5f2a''
            ''list_bases'' None exOpenState)
       = Inr \<lparr> resultText = ''Found 0 accessible bases.'',
               structuredContent = Some (JObj [(''bases'', JArr [])]),
               resultMeta = None \<rparr>
   \<and> fst (onclose stack ''t1'' exOpenState)
       = Inl (RangeError ''Maximum call stack size exceeded'')
   \<and> transportClosed stack ''t1'' exOpenState
       = Exited (RangeError ''Maximum call stack size exceeded'')
   \<and> authSessions (snd (onclose (Suc stack) ''t1'' exOpenState)) ''5f2a''
       = Some \<lparr>accessToken = ''tok2'', refreshToken = ''ref2'', expiresAt = 3602000\<rparr>
   \<and> transportToSessionId
        (snd (sseRoute None ''77c1'' ''t2'' True True
                (snd (onclose (Suc stack) ''t1'' exOpenState)))) ''t2''
       = Some ''77c1''
   \<and> fst (callTool exConfig (answering 200 [] (JObj [])) 3000 3000 3000 ''n2'' ''77c1''
            ''list_bases'' None
            (snd (sseRoute None ''77c1'' ''t2'' True True
                    (snd (onclose (Suc stack) ''t1'' exOpenState)))))
       = Inr \<lparr> resultText =
                 ''Please authenticate with Airtable to use this feature. Visit: ''
                 @ ''https://airtable.com/oauth2/v1/authorize?client_id=client''
                 @ ''&redirect_uri=http%3A%2F%2Flocalhost%3A8006%2Fauth%2Fcallback''
                 @ ''&response_type=code&state=n2''
                 @ ''&scope=data.records%3Aread+data.records%3Awrite''
                 @ ''+data.recordComments%3Aread+data.recordComments%3Awrite''
                 @ ''+schema.bases%3Aread+webhook%3Amanage'',
               structuredContent = None, resultMeta = None \<rparr>"
proof (intro conjI)
  show "authSessions exOpenState ''5f2a''
     = Some \<lparr>accessToken = ''tok2'', refreshToken = ''ref2'', expiresAt = 3602000\<rparr>"
    by code_simp
  show "transportToSessionId exOpenState ''t1'' = Some ''5f2a''"
    by code_simp
  show "fst (callTool exConfig (answering 200 [] (JObj [])) 3000 3000 3000 ''n2'' ''5f2a''
            ''list_bases'' None exOpenState)
       = Inr \<lparr> resultText = ''Found 0 accessible bases.'',
               structuredContent = Some (JObj [(''bases'', JArr [])]),
               resultMeta = None \<rparr>"
    by code_simp
  show "fst (onclose stack ''t1'' exOpenState)
       = Inl (RangeError ''Maximum call stack size exceeded'')"
    by (rule onclose_throws)
  show "transportClosed stack ''t1'' exOpenState
       = Exited (RangeError ''Maximum call stack size exceeded'')"
    by (rule transportClosed_exits)
  show "authSessions (snd (onclose (Suc stack) ''t1'' exOpenState)) ''5f2a''
       = Some \<lparr>accessToken = ''tok2'', refreshToken = ''ref2'', expiresAt = 3602000\<rparr>"
    unfolding onclose_state [of stack] by code_simp
  show "transportToSessionId
        (snd (sseRoute None ''77c1'' ''t2'' True True
                (snd (onclose (Suc stack) ''t1'' exOpenState)))) ''t2''
       = Some ''77c1''"
    unfolding onclose_state [of stack] by code_simp
  show "fst (callTool exConfig (answering 200 [] (JObj [])) 3000 3000 3000 ''n2'' ''77c1''
            ''list_bases'' None
            (snd (sseRoute None ''77c1'' ''t2'' True True
                    (snd (onclose (Suc stack) ''t1'' exOpenState)))))
       = Inr \<lparr> resultText =
                 ''Please authenticate with Airtable to use this feature. Visit: ''
                 @ ''https://airtable.com/oauth2/v1/authorize?client_id=client''
                 @ ''&redirect_uri=http%3A%2F%2Flocalhost%3A8006%2Fauth%2Fcallback''
                 @ ''&response_type=code&state=n2''
                 @ ''&scope=data.records%3Aread+data.records%3Awrite''
                 @ ''+data.recordComments%3Aread+data.recordComments%3Awrite''
                 @ ''+schema.bases%3Aread+webhook%3Amanage'',
               structuredContent = None, resultMeta = None \<rparr>"
    unfolding onclose_state [of stack] by code_simp
qed

subsection \<open>Static files\<close>

lemma splitOn_nonempty [simp]: "splitOn c xs \<noteq> []"
  by (induction xs) (auto split: list.splits)






















subsection \<open>Resources\<close>

text \<open>
  Claim C4. The file of the widget \<open>list-records\<close> holds \<open><p>v1</p>\<close> at the first
  read of the resource, which succeeds and returns it; the handler leaves the table of
  widgets as it was (\<open>html\<close> still empty). The file then holds \<open><p>v2</p>\<close>, and the
  second read of the same resource returns \<open><p>v2</p>\<close>: it read the file system again.
  The claim says the second read is served from the content stored at the first.
\<close>

theorem readResource_reads_file_again:
  "map_sum message (map contentsText)
      (fst (readResource ''/app'' (exFilesystem ''<p>v1</p>'')
              ''ui://widget/list-records.html'' widgets)) = Inr [''<p>v1</p>'']
   \<and> snd (readResource ''/app'' (exFilesystem ''<p>v1</p>'')
        ''ui://widget/list-records.html'' widgets) = widgets
   \<and> map_sum message (map contentsText)
      (fst (readResource ''/app'' (exFilesystem ''<p>v2</p>'')
              ''ui://widget/list-records.html''
              (snd (readResource ''/app'' (exFilesystem ''<p>v1</p>'')
                      ''ui://widget/list-records.html'' widgets)))) = Inr [''<p>v2</p>'']"
  by code_simp

subsection \<open>Dispatch\<close>

lemma sendsOnly_returnM: "sendsOnly env (returnM a)"
  unfolding sendsOnly_def returnM_def
  by (intro allI exI [of _ "[]"]) simp

lemma sendsOnly_throwM: "sendsOnly env (throwM e)"
  unfolding sendsOnly_def throwM_def
  by (intro allI exI [of _ "[]"]) simp

lemma sendsOnly_liftE: "sendsOnly env (liftE x)"
  by (cases x) (simp_all add: liftE_def sendsOnly_returnM sendsOnly_throwM)

lemma sendsOnly_bindM:
  assumes m: "sendsOnly env m" and f: "\<And>a. sendsOnly env (f a)"
  shows "sendsOnly env (bindM m f)"
  unfolding sendsOnly_def
proof
  fix s
  obtain new1 where s1: "snd (m s) = s\<lparr>fetchLog := fetchLog s @ new1\<rparr>"
    and p1: "\<forall>rq \<in> set new1. isApiRequest rq
               \<and> (\<forall>resp. airtableApi env rq = Some resp \<and> \<not> ok resp
                     \<longrightarrow> fst (m s) = Inl (upstreamError resp))"
    using m unfolding sendsOnly_def by blast
  show "\<exists>new. snd (bindM m f s) = s\<lparr>fetchLog := fetchLog s @ new\<rparr>
          \<and> (\<forall>rq \<in> set new. isApiRequest rq
                \<and> (\<forall>resp. airtableApi env rq = Some resp \<and> \<not> ok resp
                      \<longrightarrow> fst (bindM m f s) = Inl (upstreamError resp)))"
  proof (cases "fst (m s)")
    case (Inl e)
    then have b: "bindM m f s = (Inl e, snd (m s))"
      by (cases "m s") (simp add: bindM_def)
    show ?thesis
      using s1 p1 Inl unfolding b by (intro exI [of _ new1]) simp
  next
    case (Inr a)
    then have b: "bindM m f s = f a (snd (m s))"
      by (cases "m s") (simp add: bindM_def)
    obtain new2 where s2: "snd (f a (snd (m s))) = (snd (m s))\<lparr>fetchLog := fetchLog (snd (m s)) @ new2\<rparr>"
      and p2: "\<forall>rq \<in> set new2. isApiRequest rq
                 \<and> (\<forall>resp. airtableApi env rq = Some resp \<and> \<not> ok resp
                       \<longrightarrow> fst (f a (snd (m s))) = Inl (upstreamError resp))"
      using f [of a] unfolding sendsOnly_def by blast
    have none1: "\<forall>rq \<in> set new1. isApiRequest rq \<and> (\<forall>resp. \<not> (airtableApi env rq = Some resp \<and> \<not> ok resp))"
      using p1 Inr by auto
    have l: "snd (f a (snd (m s))) = s\<lparr>fetchLog := fetchLog s @ (new1 @ new2)\<rparr>"
      using s2 s1 by simp
    have q: "\<forall>rq \<in> set (new1 @ new2). isApiRequest rq
                \<and> (\<forall>resp. airtableApi env rq = Some resp \<and> \<not> ok resp
                      \<longrightarrow> fst (f a (snd (m s))) = Inl (upstreamError resp))"
      using none1 p2 by auto
    show ?thesis
      unfolding b using l q by blast
  qed
qed

lemma sendsOnly_case_prod:
  "(\<And>a b. sendsOnly env (f a b)) \<Longrightarrow> sendsOnly env (case_prod f p)"
  by (cases p) simp

lemma tokenUrl_not_api: "\<not> prefix AIRTABLE_API_BASE tokenUrl"
  by (simp add: AIRTABLE_API_BASE_def tokenUrl_def)

lemma sendsOnly_airtableApiRequest:
  assumes "tok \<noteq> []"
  shows "sendsOnly env (airtableApiRequest cfg env now now' sessionId endpoint meth body (Some tok))"
  unfolding sendsOnly_def
proof
  fix s
  let ?rq = "apiRequest tok endpoint meth body"
  have r: "airtableApiRequest cfg env now now' sessionId endpoint meth body (Some tok) s
           = (apiResult (airtableApi env ?rq), s\<lparr>fetchLog := fetchLog s @ [?rq]\<rparr>)"
    using assms by (simp add: airtableApiRequest_def bindM_def returnM_def Let_def)
  have a: "isApiRequest ?rq"
    by (simp add: isApiRequest_def apiRequest_def)
  have e: "\<forall>resp. airtableApi env ?rq = Some resp \<and> \<not> ok resp
             \<longrightarrow> apiResult (airtableApi env ?rq) = Inl (upstreamError resp)"
    by (simp add: apiResult_def upstreamError_def)
  show "\<exists>new. snd (airtableApiRequest cfg env now now' sessionId endpoint meth body (Some tok) s)
                 = s\<lparr>fetchLog := fetchLog s @ new\<rparr>
          \<and> (\<forall>rq \<in> set new. isApiRequest rq
                \<and> (\<forall>resp. airtableApi env rq = Some resp \<and> \<not> ok resp
                      \<longrightarrow> fst (airtableApiRequest cfg env now now' sessionId endpoint meth body
                                  (Some tok) s) = Inl (upstreamError resp)))"
    unfolding r using a e by (intro exI [of _ "[?rq]"]) simp
qed

lemma sendsOnly_if:
  "sendsOnly env x \<Longrightarrow> sendsOnly env y \<Longrightarrow> sendsOnly env (if c then x else y)"
  by simp

lemmas sendsOnly_intros =
  sendsOnly_bindM sendsOnly_liftE sendsOnly_returnM sendsOnly_throwM sendsOnly_case_prod
  sendsOnly_if

text \<open>
  Every tool but \<open>get_comments\<close> and \<open>create_comment\<close> is a sequence of parses,
  requests and reads of the payload with no \<open>catch\<close>: what one request throws is what
  the tool throws.
\<close>

lemma sendsOnly_list_bases:
  assumes "\<And>e m b. sendsOnly env (api e m b)"
  shows "sendsOnly env (tool_list_bases api)"
  unfolding tool_list_bases_def by (intro sendsOnly_intros assms)

lemma sendsOnly_get_base_schema:
  assumes "\<And>e m b. sendsOnly env (api e m b)"
  shows "sendsOnly env (tool_get_base_schema api a)"
  unfolding tool_get_base_schema_def Let_def by (intro sendsOnly_intros assms)

lemma sendsOnly_list_tables:
  assumes "\<And>e m b. sendsOnly env (api e m b)"
  shows "sendsOnly env (tool_list_tables api a)"
  unfolding tool_list_tables_def Let_def by (intro sendsOnly_intros assms)

lemma sendsOnly_list_fields:
  assumes "\<And>e m b. sendsOnly env (api e m b)"
  shows "sendsOnly env (tool_list_fields api a)"
  unfolding tool_list_fields_def Let_def by (intro sendsOnly_intros assms)

lemma sendsOnly_list_views:
  assumes "\<And>e m b. sendsOnly env (api e m b)"
  shows "sendsOnly env (tool_list_views api a)"
  unfolding tool_list_views_def Let_def by (intro sendsOnly_intros assms)

lemma sendsOnly_get_record:
  assumes "\<And>e m b. sendsOnly env (api e m b)"
  shows "sendsOnly env (tool_get_record api a)"
  unfolding tool_get_record_def Let_def by (intro sendsOnly_intros assms)

lemma sendsOnly_create_record:
  assumes "\<And>e m b. sendsOnly env (api e m b)"
  shows "sendsOnly env (tool_create_record api a)"
  unfolding tool_create_record_def Let_def by (intro sendsOnly_intros assms)

lemma sendsOnly_update_record:
  assumes "\<And>e m b. sendsOnly env (api e m b)"
  shows "sendsOnly env (tool_update_record api a)"
  unfolding tool_update_record_def Let_def by (intro sendsOnly_intros assms)

lemma sendsOnly_replace_record:
  assumes "\<And>e m b. sendsOnly env (api e m b)"
  shows "sendsOnly env (tool_replace_record api a)"
  unfolding tool_replace_record_def Let_def by (intro sendsOnly_intros assms)

lemma sendsOnly_delete_record:
  assumes "\<And>e m b. sendsOnly env (api e m b)"
  shows "sendsOnly env (tool_delete_record api a)"
  unfolding tool_delete_record_def Let_def by (intro sendsOnly_intros assms)

lemma sendsOnly_batch_create_records:
  assumes "\<And>e m b. sendsOnly env (api e m b)"
  shows "sendsOnly env (tool_batch_create_records api a)"
  unfolding tool_batch_create_records_def Let_def by (intro sendsOnly_intros assms)

lemma sendsOnly_batch_update_records:
  assumes "\<And>e m b. sendsOnly env (api e m b)"
  shows "sendsOnly env (tool_batch_update_records api a)"
  unfolding tool_batch_update_records_def Let_def by (intro sendsOnly_intros assms)

lemma sendsOnly_batch_delete_records:
  assumes "\<And>e m b. sendsOnly env (api e m b)"
  shows "sendsOnly env (tool_batch_delete_records api a)"
  unfolding tool_batch_delete_records_def Let_def by (intro sendsOnly_intros assms)

lemma sendsOnly_list_attachments:
  assumes "\<And>e m b. sendsOnly env (api e m b)"
  shows "sendsOnly env (tool_list_attachments api a)"
  unfolding tool_list_attachments_def Let_def by (intro sendsOnly_intros assms)

lemma sendsOnly_validate_schema_compatibility:
  assumes "\<And>e m b. sendsOnly env (api e m b)"
  shows "sendsOnly env (tool_validate_schema_compatibility api a)"
  unfolding tool_validate_schema_compatibility_def Let_def by (intro sendsOnly_intros assms)

lemma sendsOnly_list_records:
  assumes "\<And>e m b. sendsOnly env (api e m b)"
  shows "sendsOnly env (tool_list_records api a)"
  unfolding tool_list_records_def Let_def by (intro sendsOnly_intros assms)

lemma sendsOnly_query_records:
  assumes "\<And>e m b. sendsOnly env (api e m b)"
  shows "sendsOnly env (tool_query_records api a)"
  unfolding tool_query_records_def Let_def by (intro sendsOnly_intros assms)

lemma sendsOnly_get_view_records:
  assumes "\<And>e m b. sendsOnly env (api e m b)"
  shows "sendsOnly env (tool_get_view_records api a)"
  unfolding tool_get_view_records_def Let_def by (intro sendsOnly_intros assms)

lemma sendsOnly_upload_attachment:
  assumes "\<And>e m b. sendsOnly env (api e m b)"
  shows "sendsOnly env (tool_upload_attachment api a)"
  unfolding tool_upload_attachment_def Let_def by (intro sendsOnly_intros assms)

lemma sendsOnly_upsert_record:
  assumes "\<And>e m b. sendsOnly env (api e m b)"
  shows "sendsOnly env (tool_upsert_record env api a)"
  unfolding tool_upsert_record_def Let_def by (intro sendsOnly_intros assms)

lemma sendsOnly_toolSwitch:
  assumes api: "\<And>e m b. sendsOnly env (api e m b)"
    and "name \<noteq> ''get_comments''" and "name \<noteq> ''create_comment''"
  shows "sendsOnly env (toolSwitch env api name arguments)"
  using assms(2,3)
  by (simp add: toolSwitch_def Let_def sendsOnly_throwM
        sendsOnly_list_bases [OF api]
        sendsOnly_get_base_schema [OF api]
        sendsOnly_list_tables [OF api]
        sendsOnly_list_fields [OF api]
        sendsOnly_list_views [OF api]
        sendsOnly_get_record [OF api]
        sendsOnly_create_record [OF api]
        sendsOnly_update_record [OF api]
        sendsOnly_replace_record [OF api]
        sendsOnly_delete_record [OF api]
        sendsOnly_batch_create_records [OF api]
        sendsOnly_batch_update_records [OF api]
        sendsOnly_batch_delete_records [OF api]
        sendsOnly_list_attachments [OF api]
        sendsOnly_validate_schema_compatibility [OF api]
        sendsOnly_list_records [OF api]
        sendsOnly_query_records [OF api]
        sendsOnly_get_view_records [OF api]
        sendsOnly_upload_attachment [OF api]
        sendsOnly_upsert_record [OF api])

text \<open>
  \<open>generateAuthUrl\<close>, written out: the query carries the client id, the redirect URI,
  \<open>response_type=code\<close>, the state and the six scopes, each form-encoded.
\<close>

lemma urlencode_alnum: "list_all isAlnum x \<Longrightarrow> urlencode x = x"
  by (induction x) (simp_all add: urlencode_def urlencodeByte_def)

lemma generateAuthUrl_parts:
  "generateAuthUrl cfg state =
     ''https://airtable.com/oauth2/v1/authorize?client_id='' @ urlencode (AIRTABLE_CLIENT_ID cfg)
     @ ''&redirect_uri='' @ urlencode (AIRTABLE_REDIRECT_URI cfg)
     @ ''&response_type=code&state='' @ urlencode state
     @ ''&scope=data.records%3Aread+data.records%3Awrite+data.recordComments%3Aread''
     @ ''+data.recordComments%3Awrite+schema.bases%3Aread+webhook%3Amanage''"
proof -
  have k1: "urlencode ''client_id'' = ''client_id''" by code_simp
  have k2: "urlencode ''redirect_uri'' = ''redirect_uri''" by code_simp
  have k3: "urlencode ''response_type'' = ''response_type''" by code_simp
  have k4: "urlencode ''state'' = ''state''" by code_simp
  have k5: "urlencode ''scope'' = ''scope''" by code_simp
  have k6: "urlencode ''code'' = ''code''" by code_simp
  have k7: "urlencode (joinWith '' '' scopes)
              = ''data.records%3Aread+data.records%3Awrite+data.recordComments%3Aread''
                @ ''+data.recordComments%3Awrite+schema.bases%3Aread+webhook%3Amanage''"
    by code_simp
  show ?thesis
    unfolding generateAuthUrl_def searchParamsToString_def
    by (simp add: k1 k2 k3 k4 k5 k6 k7)
qed

text \<open>
  Claim C1. A call for a session that has no entry in \<open>authSessions\<close> and no entry in
  \<open>sessionAuthHeaders\<close> returns, whatever the tool and the arguments, a result (not an
  exception) whose text is the instruction followed by the authorization URL: the
  authorize endpoint with the client id, the redirect URI, \<open>response_type=code\<close>, the
  nonce as \<open>state\<close> and the scopes. The nonce is stored as a pending state of the
  session; a nonce of letters and digits (the program's is 32 hex digits) stands in the
  URL as it is.
\<close>

theorem callTool_without_credential:
  assumes "authSessions s sessionId = None" and "sessionAuthHeaders s sessionId = None"
  shows "callTool cfg env now now' now'' nonce sessionId name arguments s =
           (Inr \<lparr> resultText =
                    ''Please authenticate with Airtable to use this feature. Visit: ''
                    @ ''https://airtable.com/oauth2/v1/authorize?client_id=''
                    @ urlencode (AIRTABLE_CLIENT_ID cfg)
                    @ ''&redirect_uri='' @ urlencode (AIRTABLE_REDIRECT_URI cfg)
                    @ ''&response_type=code&state='' @ urlencode nonce
                    @ ''&scope=data.records%3Aread+data.records%3Awrite''
                    @ ''+data.recordComments%3Aread+data.recordComments%3Awrite''
                    @ ''+schema.bases%3Aread+webhook%3Amanage'',
                  structuredContent = None,
                  resultMeta = None \<rparr>,
            s\<lparr>pendingAuthStates := (pendingAuthStates s)
                (nonce \<mapsto> \<lparr>pendingSessionId = sessionId, createdAt = now''\<rparr>)\<rparr>)
       \<and> (list_all isAlnum nonce \<longrightarrow> urlencode nonce = nonce)"
  using assms
  by (simp add: callTool_def authorizationGate_def bindM_def truthyStr_def generateAuthUrl_parts
        urlencode_alnum)

theorem callTool_without_credential_witness:
  "callTool exConfig exEnvironment 0 0 5 ''4f9a07c2'' ''s9'' ''list_bases'' None emptyState =
     (Inr \<lparr> resultText =
              ''Please authenticate with Airtable to use this feature. Visit: ''
              @ ''https://airtable.com/oauth2/v1/authorize?client_id=client''
              @ ''&redirect_uri=http%3A%2F%2Flocalhost%3A8006%2Fauth%2Fcallback''
              @ ''&response_type=code&state=4f9a07c2''
              @ ''&scope=data.records%3Aread+data.records%3Awrite''
              @ ''+data.recordComments%3Aread+data.recordComments%3Awrite''
              @ ''+schema.bases%3Aread+webhook%3Amanage'',
            structuredContent = None,
            resultMeta = None \<rparr>,
      emptyState\<lparr>pendingAuthStates :=
                   [''4f9a07c2'' \<mapsto> \<lparr>pendingSessionId = ''s9'', createdAt = 5\<rparr>]\<rparr>)"
proof -
  have a: "authSessions emptyState ''s9'' = None" by (simp add: emptyState_def)
  have h: "sessionAuthHeaders emptyState ''s9'' = None" by (simp add: emptyState_def)
  have p: "pendingAuthStates emptyState = Map.empty" by (simp add: emptyState_def)
  have c: "urlencode (AIRTABLE_CLIENT_ID exConfig) = ''client''" by code_simp
  have r: "urlencode (AIRTABLE_REDIRECT_URI exConfig)
             = ''http%3A%2F%2Flocalhost%3A8006%2Fauth%2Fcallback''" by code_simp
  have n: "list_all isAlnum ''4f9a07c2''" by code_simp
  from callTool_without_credential [OF a h, of exConfig exEnvironment 0 0 5 "''4f9a07c2''"
         "''list_bases''" None] n
  show ?thesis
    by (simp add: p c r)
qed

lemma getValidAccessToken_log:
  "fetchLog (snd (getValidAccessToken cfg env now now' sessionId s)) = fetchLog s
   \<or> (\<exists>rt. fetchLog (snd (getValidAccessToken cfg env now now' sessionId s))
               = fetchLog s @ [refreshRequest cfg rt])"
  by (auto simp: getValidAccessToken_def refreshAccessToken_def Let_def
        split: option.splits sum.splits prod.splits)

lemma snd_bindM_returnM: "snd (bindM m (\<lambda>t. returnM (h t)) s) = snd (m s)"
  by (cases "m s") (auto simp: bindM_def returnM_def split: sum.splits)

lemma authorizationGate_log:
  "\<exists>pre. fetchLog (snd (authorizationGate cfg env now now' sessionId s)) = fetchLog s @ pre
         \<and> (\<forall>rq \<in> set pre. \<not> isApiRequest rq)"
proof -
  have n: "\<not> isApiRequest (refreshRequest cfg rt)" for rt
    using tokenUrl_not_api by (simp add: isApiRequest_def refreshRequest_def)
  have "fetchLog (snd (authorizationGate cfg env now now' sessionId s)) = fetchLog s
        \<or> (\<exists>rt. fetchLog (snd (authorizationGate cfg env now now' sessionId s))
                    = fetchLog s @ [refreshRequest cfg rt])"
  proof (cases "authSessions s sessionId")
    case None
    then show ?thesis
      by (simp add: authorizationGate_def split: option.splits)
  next
    case (Some session)
    then have "snd (authorizationGate cfg env now now' sessionId s)
               = snd (getValidAccessToken cfg env now now' sessionId s)"
      by (simp add: authorizationGate_def snd_bindM_returnM)
    then show ?thesis using getValidAccessToken_log [of cfg env now now' sessionId s] by simp
  qed
  then consider (same) "fetchLog (snd (authorizationGate cfg env now now' sessionId s)) = fetchLog s"
    | (refresh) rt where "fetchLog (snd (authorizationGate cfg env now now' sessionId s))
                            = fetchLog s @ [refreshRequest cfg rt]"
    by blast
  then show ?thesis
  proof cases
    case same
    then show ?thesis by (intro exI [of _ "[]"]) simp
  next
    case (refresh rt)
    then show ?thesis using n by (intro exI [of _ "[refreshRequest cfg rt]"]) simp
  qed
qed

text \<open>
  Claim C5, as stated, fails for \<open>get_comments\<close> (and \<open>create_comment\<close>): the
  backend answers the request of the tool with 404, and the call returns a result whose
  text quotes the error.
\<close>

theorem get_comments_swallows_upstream_error:
  "''get_comments'' \<in> set (map toolName tools)
   \<and> fetchLog (snd (callTool exConfig (answering 404 ''NOT_FOUND'' JNull) 0 0 5 ''abc'' ''s1''
                       ''get_comments'' exArguments exAuthState))
       = [apiRequest ''tok1'' ''/b/t/r/comments'' ''GET'' None]
   \<and> airtableApi (answering 404 ''NOT_FOUND'' JNull)
        (apiRequest ''tok1'' ''/b/t/r/comments'' ''GET'' None)
       = Some \<lparr>respStatus = 404, respText = ''NOT_FOUND'', respJson = Inr JNull\<rparr>
   \<and> fst (callTool exConfig (answering 404 ''NOT_FOUND'' JNull) 0 0 5 ''abc'' ''s1''
             ''get_comments'' exArguments exAuthState)
       = Inr \<lparr> resultText = ''Comments API not available or record does not support comments: ''
                             @ ''Airtable API error: 404 NOT_FOUND'',
               structuredContent = None, resultMeta = None \<rparr>"
  by code_simp

text \<open>
  Claim C5, amended. For every tool of the catalog other than \<open>get_comments\<close> and
  \<open>create_comment\<close>: whenever a request that the call sent to the backend was answered
  with a status outside 200..299, the call throws the error
  \<open>Airtable API error: <status> <body>\<close> of that answer.
\<close>

theorem callTool_propagates_upstream_error:
  assumes "name \<in> set (map toolName tools)"
    and "name \<noteq> ''get_comments''" and "name \<noteq> ''create_comment''"
  shows "\<exists>new. fetchLog (snd (callTool cfg env now now' now'' nonce sessionId name arguments s))
                = fetchLog s @ new
          \<and> (\<forall>rq \<in> set new. \<forall>resp.
                isApiRequest rq \<and> airtableApi env rq = Some resp \<and> \<not> ok resp \<longrightarrow>
                fst (callTool cfg env now now' now'' nonce sessionId name arguments s)
                  = Inl (Error (''Airtable API error: '' @ showNat (respStatus resp) @ '' ''
                                @ respText resp)))"
proof -
  let ?gate = "authorizationGate cfg env now now' sessionId"
  let ?call = "callTool cfg env now now' now'' nonce sessionId name arguments"
  obtain pre where pre: "fetchLog (snd (?gate s)) = fetchLog s @ pre"
    and napi: "\<forall>rq \<in> set pre. \<not> isApiRequest rq"
    using authorizationGate_log by blast
  obtain r1 s1 where g: "?gate s = (r1, s1)" by (cases "?gate s")
  have l1: "fetchLog s1 = fetchLog s @ pre" using pre g by simp
  consider (threw) e where "r1 = Inl e"
    | (none) t where "r1 = Inr t" "\<not> truthyStr t"
    | (token) tok where "r1 = Inr (Some tok)" "tok \<noteq> []"
  proof (cases r1)
    case (Inl e)
    then show ?thesis using threw by blast
  next
    case (Inr t)
    show ?thesis
    proof (cases "truthyStr t")
      case False
      then show ?thesis using none Inr by blast
    next
      case True
      then obtain tok where "t = Some tok" "tok \<noteq> []"
        by (cases t) (simp_all add: truthyStr_def)
      then show ?thesis using token Inr by blast
    qed
  qed
  then show ?thesis
  proof cases
    case (threw e)
    then have "?call s = (Inl e, s1)" using g by (simp add: callTool_def bindM_def)
    then show ?thesis using l1 napi by (intro exI [of _ pre]) simp
  next
    case (none t)
    then have "fetchLog (snd (?call s)) = fetchLog s1"
      using g by (simp add: callTool_def bindM_def)
    then show ?thesis using l1 napi by (intro exI [of _ pre]) simp
  next
    case (token tok)
    let ?api = "\<lambda>endpoint meth body.
                  airtableApiRequest cfg env now now' sessionId endpoint meth body (Some tok)"
    have c: "?call s = toolSwitch env ?api name arguments s1"
      using g token by (simp add: callTool_def bindM_def truthyStr_def)
    have "sendsOnly env (toolSwitch env ?api name arguments)"
      using assms(2,3) token(2)
      by (intro sendsOnly_toolSwitch sendsOnly_airtableApiRequest)
    then obtain new2 where s2: "snd (toolSwitch env ?api name arguments s1)
                                  = s1\<lparr>fetchLog := fetchLog s1 @ new2\<rparr>"
      and p2: "\<forall>rq \<in> set new2. isApiRequest rq
                 \<and> (\<forall>resp. airtableApi env rq = Some resp \<and> \<not> ok resp
                       \<longrightarrow> fst (toolSwitch env ?api name arguments s1) = Inl (upstreamError resp))"
      unfolding sendsOnly_def by blast
    have l: "fetchLog (snd (?call s)) = fetchLog s @ (pre @ new2)"
      using c s2 l1 by simp
    have q: "\<forall>rq \<in> set (pre @ new2). \<forall>resp.
                isApiRequest rq \<and> airtableApi env rq = Some resp \<and> \<not> ok resp \<longrightarrow>
                fst (?call s) = Inl (upstreamError resp)"
      using napi p2 c by auto
    show ?thesis
      using l q unfolding upstreamError_def by blast
  qed
qed

theorem callTool_propagates_upstream_error_witness:
  "''get_record'' \<in> set (map toolName tools)
   \<and> fetchLog (snd (callTool exConfig (answering 404 ''NOT_FOUND'' JNull) 0 0 5 ''abc'' ''s1''
                       ''get_record'' exArguments exAuthState))
       = [apiRequest ''tok1'' ''/b/t/r'' ''GET'' None]
   \<and> fst (callTool exConfig (answering 404 ''NOT_FOUND'' JNull) 0 0 5 ''abc'' ''s1''
             ''get_record'' exArguments exAuthState)
       = Inl (Error ''Airtable API error: 404 NOT_FOUND'')"
proof -
  let ?env = "answering 404 ''NOT_FOUND'' JNull"
  let ?rq = "apiRequest ''tok1'' ''/b/t/r'' ''GET'' None"
  have m: "''get_record'' \<in> set (map toolName tools)" by code_simp
  have n1: "''get_record'' \<noteq> ''get_comments''" and n2: "''get_record'' \<noteq> ''create_comment''"
    by simp_all
  have lg: "fetchLog (snd (callTool exConfig ?env 0 0 5 ''abc'' ''s1'' ''get_record''
                             exArguments exAuthState)) = [?rq]"
    by code_simp
  have l0: "fetchLog exAuthState = []" by (simp add: exAuthState_def emptyState_def)
  have a: "isApiRequest ?rq" by (simp add: isApiRequest_def apiRequest_def)
  have r: "airtableApi ?env ?rq = Some \<lparr>respStatus = 404, respText = ''NOT_FOUND'', respJson = Inr JNull\<rparr>"
    by (simp add: answering_def)
  have k: "\<not> ok \<lparr>respStatus = 404, respText = ''NOT_FOUND'', respJson = Inr JNull\<rparr>"
    by (simp add: ok_def)
  have sh: "showNat 404 = ''404''" by code_simp
  from callTool_propagates_upstream_error [OF m n1 n2, of exConfig ?env 0 0 5 "''abc''" "''s1''"
         exArguments exAuthState]
  obtain new where n: "[?rq] = new"
    and p: "\<forall>rq \<in> set new. \<forall>resp.
               isApiRequest rq \<and> airtableApi ?env rq = Some resp \<and> \<not> ok resp \<longrightarrow>
               fst (callTool exConfig ?env 0 0 5 ''abc'' ''s1'' ''get_record'' exArguments exAuthState)
                 = Inl (Error (''Airtable API error: '' @ showNat (respStatus resp) @ '' ''
                               @ respText resp))"
    unfolding lg l0 by auto
  have "?rq \<in> set new" using n by auto
  with p a r k have "fst (callTool exConfig ?env 0 0 5 ''abc'' ''s1'' ''get_record'' exArguments exAuthState)
      = Inl (Error (''Airtable API error: '' @ showNat 404 @ '' '' @ ''NOT_FOUND''))"
    by fastforce
  then show ?thesis using m lg sh by simp
qed

text \<open>
  Claim C6, as stated, fails for a session without a credential: the handler decides on
  the credential before it looks at the name, and the call naming the unknown tool
  \<open>no_such_tool\<close> returns the authorization guidance, not an error.
\<close>

theorem unknown_tool_without_credential_counterexample:
  "''no_such_tool'' \<notin> set (map toolName tools)
   \<and> fst (callTool exConfig exEnvironment 0 0 5 ''abc'' ''s9'' ''no_such_tool'' None emptyState)
       = Inr \<lparr> resultText =
                 ''Please authenticate with Airtable to use this feature. Visit: ''
                 @ generateAuthUrl exConfig ''abc'',
               structuredContent = None, resultMeta = None \<rparr>"
  by code_simp

text \<open>
  Claim C6, amended. A call that names a tool outside the catalog, made for a session
  for which the first part of the handler yields an access token, throws
  \<open>Unknown tool: <name>\<close> and sends nothing to the backend.
\<close>

theorem callTool_unknown_tool:
  assumes "name \<notin> set (map toolName tools)"
    and "authorizationGate cfg env now now' sessionId s = (Inr (Some tok), s1)"
    and "tok \<noteq> []"
  shows "callTool cfg env now now' now'' nonce sessionId name arguments s
           = (Inl (Error (''Unknown tool: '' @ name)), s1)"
proof -
  have "toolSwitch env api name arguments = throwM (Error (''Unknown tool: '' @ name))" for api
    using assms(1) by (simp add: tools_def toolSwitch_def Let_def)
  then show ?thesis
    using assms(2,3) by (simp add: callTool_def bindM_def truthyStr_def throwM_def)
qed

theorem callTool_unknown_tool_witness:
  "''no_such_tool'' \<notin> set (map toolName tools)
   \<and> authorizationGate exConfig exEnvironment 0 0 ''s1'' exAuthState = (Inr (Some ''tok1''), exAuthState)
   \<and> callTool exConfig exEnvironment 0 0 5 ''abc'' ''s1'' ''no_such_tool'' None exAuthState
       = (Inl (Error ''Unknown tool: no_such_tool''), exAuthState)"
proof -
  have n: "''no_such_tool'' \<notin> set (map toolName tools)" by code_simp
  have g: "authorizationGate exConfig exEnvironment 0 0 ''s1'' exAuthState
             = (Inr (Some ''tok1''), exAuthState)"
    by (simp add: authorizationGate_def exAuthState_def emptyState_def exSession_def
          getValidAccessToken_def bindM_def returnM_def)
  have t: "''tok1'' \<noteq> []" by simp
  show ?thesis
    using callTool_unknown_tool [OF n g t, of 5 "''abc''" None] n g by simp
qed






end
